theory Spec2Isabelle
  imports Complex_Main "HOL-Library.Char_ord" "HOL-Library.List_Lexorder"
    "HOL-Library.Product_Lexorder" "HOL-Library.Word"
begin

section \<open>Common data\<close>

text \<open>
  Python \<open>str\<close> values are modelled as \<open>string\<close>; its characters are the code
  points 0..255. Every exception a modelled function can raise is a value of \<open>error\<close>;
  a function that can raise returns \<open>error + 'a\<close> with \<open>Inl\<close> for the exception.
\<close>

datatype error =
    PathTraversalError
  | StorageError string
  | re_error
  | OSError
  | PermissionError
  | AttributeError
  | KeyError string
  | IntegrityError
  | HTTPException int
  | DocumentNotFound int
  | NoExtractedText int
  | NoChunksFound int
  | PdfExtractionFailed
  | UnsupportedFileFormat
  | EmbeddingGenerationFailed
  | QdrantUpsertFailed
  | ResponseError

datatype DocStatus =
  INGESTED | ANALYZING | ANALYZED | NEEDS_REVIEW | APPROVED | COMMITTED | ERROR | DUPLICATE

text \<open>The classification trace stored in \<open>Document.llm_trace\<close>.\<close>

record changes =
  ch_category :: "string option"
  ch_target_path :: "string option"
  ch_suggested_filename :: "string option"
  ch_tags :: "string list option"

datatype trace =
    TraceRules int string changes
  | TraceLLM string

text \<open>The columns of \<open>models/document.py\<close> that the pipeline reads or writes.\<close>

record Document =
  doc_id :: int
  file_sha256 :: string
  original_filename :: string
  mime_type :: "string option"
  file_size_bytes :: "int option"
  inbox_relpath :: "string option"
  ingested_relpath :: "string option"
  status :: DocStatus
  extracted_text :: "string option"
  page_count :: "int option"
  category :: "string option"
  suggested_filename :: "string option"
  suggested_target_path :: "string option"
  classification_confidence :: "real option"
  llm_trace :: "trace option"
  analyzed_at :: "nat option"

record DocumentChunk =
  chunk_id :: int
  chunk_document_id :: int
  chunk_index :: nat
  chunk_text :: string
  chunk_tokens :: nat
  qdrant_point_id :: "string option"

section \<open>String helpers (Python \<open>str\<close> methods)\<close>

text \<open>\<open>str.lower\<close> on the code points 0..255: A-Z and the upper-case letters of Latin-1.\<close>

definition lower_char :: "char \<Rightarrow> char" where
  "lower_char c =
     (let n = (of_char c :: nat)
      in if (65 \<le> n \<and> n \<le> 90) \<or> (192 \<le> n \<and> n \<le> 222 \<and> n \<noteq> 215)
         then char_of (n + 32) else c)"

definition lower :: "string \<Rightarrow> string" where
  "lower s = map lower_char s"

text \<open>\<open>a in b\<close> on strings: \<open>a\<close> occurs in \<open>b\<close> as a contiguous run.\<close>

fun str_in :: "string \<Rightarrow> string \<Rightarrow> bool" where
  "str_in a [] = (a = [])"
| "str_in a (c # cs) = (take (length a) (c # cs) = a \<or> str_in a cs)"

text \<open>Truthiness of an optional string and of an optional integer (\<open>not x\<close>).\<close>

definition falsy_str :: "string option \<Rightarrow> bool" where
  "falsy_str s = (s = None \<or> s = Some [])"

definition falsy_int :: "int option \<Rightarrow> bool" where
  "falsy_int n = (n = None \<or> n = Some 0)"

section \<open>Rules engine (\<open>worker/app/services/rules_engine.py\<close>)\<close>

text \<open>
  A condition dict has up to six recognised keys, each with a value of the key's type:
  patterns and mime types are strings, sizes are integers. A key that is absent is
  \<open>None\<close>. Keys that \<open>evaluate_condition\<close> does not know are ignored by it, so they
  need no field.
\<close>

record condition =
  filename_regex :: "string option"
  cond_mime_type :: "string option"
  mime_type_contains :: "string option"
  file_size_min :: "int option"
  file_size_max :: "int option"
  text_contains :: "string option"

text \<open>One item of a rule's \<open>conditions\<close> dict, in the dict's own order.\<close>

datatype cond_item =
    FilenameRegex string
  | MimeType string
  | MimeTypeContains string
  | FileSizeMin int
  | FileSizeMax int
  | TextContains string
  | UnknownKey string

definition empty_condition :: condition where
  "empty_condition = \<lparr> filename_regex = None, cond_mime_type = None, mime_type_contains = None,
     file_size_min = None, file_size_max = None, text_contains = None \<rparr>"

text \<open>The one-key dict \<open>{key: value}\<close> that \<open>evaluate_rule\<close> builds for an item.\<close>

fun single_condition :: "cond_item \<Rightarrow> condition" where
  "single_condition (FilenameRegex p) = empty_condition\<lparr>filename_regex := Some p\<rparr>"
| "single_condition (MimeType m) = empty_condition\<lparr>cond_mime_type := Some m\<rparr>"
| "single_condition (MimeTypeContains m) = empty_condition\<lparr>mime_type_contains := Some m\<rparr>"
| "single_condition (FileSizeMin n) = empty_condition\<lparr>file_size_min := Some n\<rparr>"
| "single_condition (FileSizeMax n) = empty_condition\<lparr>file_size_max := Some n\<rparr>"
| "single_condition (TextContains t) = empty_condition\<lparr>text_contains := Some t\<rparr>"
| "single_condition (UnknownKey k) = empty_condition"

record actions =
  act_category :: "string option"
  act_target_path :: "string option"
  act_suggested_filename :: "string option"
  act_tags :: "string list option"

record Rule =
  rule_id :: int
  rule_name :: string
  priority :: int
  conditions :: "cond_item list"
  rule_actions :: actions
  is_active :: bool

text \<open>
  \<open>re.search(pattern, s, re.IGNORECASE)\<close> is the library's regular expression engine.
  It is a parameter \<open>rx\<close>: \<open>rx pattern s\<close> is \<open>None\<close> when the pattern does not compile
  (the call raises \<open>re.error\<close>) and otherwise tells whether a match was found.
\<close>

type_synonym regex_engine = "string \<Rightarrow> string \<Rightarrow> bool option"

text \<open>
  \<open>get_active_rules\<close>: the rows with \<open>is_active = TRUE\<close>, \<open>ORDER BY priority ASC\<close>.
  SQL leaves the order of rows of equal priority open; the model keeps the table's order
  among them.
\<close>

definition get_active_rules :: "Rule list \<Rightarrow> Rule list" where
  "get_active_rules rules = sort_key priority (filter is_active rules)"

text \<open>
  \<open>evaluate_condition\<close>: each \<open>if key in condition\<close> block in the source's order. A block
  returns \<open>False\<close>, raises, or falls through to the next one.
\<close>

definition evaluate_condition :: "regex_engine \<Rightarrow> Document \<Rightarrow> condition \<Rightarrow> error + bool" where
  "evaluate_condition rx document c =
     (case (case filename_regex c of
              None \<Rightarrow> Inr True
            | Some pattern \<Rightarrow>
                (case rx pattern (original_filename document) of
                   None \<Rightarrow> Inl re_error
                 | Some found \<Rightarrow> Inr found)) of
        Inl e \<Rightarrow> Inl e
      | Inr False \<Rightarrow> Inr False
      | Inr True \<Rightarrow>
          if (case cond_mime_type c of
                None \<Rightarrow> False
              | Some m \<Rightarrow> mime_type document \<noteq> Some m)
          then Inr False
          else if (case mime_type_contains c of
                None \<Rightarrow> False
              | Some m \<Rightarrow> falsy_str (mime_type document)
                          \<or> \<not> str_in (lower m) (lower (the (mime_type document))))
          then Inr False
          else if (case file_size_min c of
                None \<Rightarrow> False
              | Some n \<Rightarrow> falsy_int (file_size_bytes document)
                          \<or> the (file_size_bytes document) < n)
          then Inr False
          else if (case file_size_max c of
                None \<Rightarrow> False
              | Some n \<Rightarrow> falsy_int (file_size_bytes document)
                          \<or> the (file_size_bytes document) > n)
          then Inr False
          else if (case text_contains c of
                None \<Rightarrow> False
              | Some t \<Rightarrow> falsy_str (extracted_text document)
                          \<or> \<not> str_in (lower t) (lower (the (extracted_text document))))
          then Inr False
          else Inr True)"

text \<open>
  \<open>evaluate_rule\<close>: no conditions match everything; otherwise the items are evaluated
  one at a time and the first that fails (or raises) ends the loop.
\<close>

fun evaluate_items :: "regex_engine \<Rightarrow> Document \<Rightarrow> cond_item list \<Rightarrow> error + bool" where
  "evaluate_items rx document [] = Inr True"
| "evaluate_items rx document (item # items) =
     (case evaluate_condition rx document (single_condition item) of
        Inl e \<Rightarrow> Inl e
      | Inr False \<Rightarrow> Inr False
      | Inr True \<Rightarrow> evaluate_items rx document items)"

definition evaluate_rule :: "regex_engine \<Rightarrow> Document \<Rightarrow> Rule \<Rightarrow> error + bool" where
  "evaluate_rule rx document rule =
     (if conditions rule = [] then Inr True
      else evaluate_items rx document (conditions rule))"

text \<open>\<open>apply_actions\<close> returns the modified document and the dict of changes.\<close>

definition apply_actions :: "Document \<Rightarrow> actions \<Rightarrow> Document \<times> changes" where
  "apply_actions document a =
     (let d1 = (case act_category a of None \<Rightarrow> document
                | Some v \<Rightarrow> document\<lparr>category := Some v\<rparr>);
          d2 = (case act_target_path a of None \<Rightarrow> d1
                | Some v \<Rightarrow> d1\<lparr>suggested_target_path := Some v\<rparr>);
          d3 = (case act_suggested_filename a of None \<Rightarrow> d2
                | Some v \<Rightarrow> d2\<lparr>suggested_filename := Some v\<rparr>)
      in (d3, \<lparr> ch_category = act_category a, ch_target_path = act_target_path a,
                ch_suggested_filename = act_suggested_filename a, ch_tags = act_tags a \<rparr>))"

record rule_result =
  rr_rule_id :: int
  rr_rule_name :: string
  rr_priority :: int
  rr_changes :: changes

text \<open>The loop of \<open>RulesEngine.classify_document\<close> over the rules it loaded.\<close>

fun first_match :: "regex_engine \<Rightarrow> Document \<Rightarrow> Rule list
    \<Rightarrow> error + (rule_result \<times> Document) option" where
  "first_match rx document [] = Inr None"
| "first_match rx document (rule # rules) =
     (case evaluate_rule rx document rule of
        Inl e \<Rightarrow> Inl e
      | Inr True \<Rightarrow>
          (let (d, ch) = apply_actions document (rule_actions rule)
           in Inr (Some (\<lparr> rr_rule_id = rule_id rule, rr_rule_name = rule_name rule,
                            rr_priority = priority rule, rr_changes = ch \<rparr>, d)))
      | Inr False \<Rightarrow> first_match rx document rules)"

definition RulesEngine_classify_document :: "regex_engine \<Rightarrow> Rule list \<Rightarrow> Document
    \<Rightarrow> error + (rule_result \<times> Document) option" where
  "RulesEngine_classify_document rx rules document =
     first_match rx document (get_active_rules rules)"

section \<open>Database tables\<close>

text \<open>
  The relational store: the rows of \<open>documents\<close>, \<open>rules\<close> and \<open>document_chunks\<close>.
  A handler opens a session, changes objects in memory and writes them with \<open>commit\<close>;
  when it raises before \<open>commit\<close>, \<open>db.close()\<close> drops the changes and the store is
  as it was.
\<close>

record database =
  documents :: "Document list"
  rules :: "Rule list"
  chunks :: "DocumentChunk list"

text \<open>\<open>db.query(Document).filter(Document.id == document_id).first()\<close>\<close>

definition get_document :: "database \<Rightarrow> int \<Rightarrow> Document option" where
  "get_document db i = find (\<lambda>d. doc_id d = i) (documents db)"

text \<open>\<open>commit\<close> of a changed document: its row, found by primary key, is replaced.\<close>

definition commit_document :: "database \<Rightarrow> Document \<Rightarrow> database" where
  "commit_document db d =
     db\<lparr>documents := map (\<lambda>x. if doc_id x = doc_id d then d else x) (documents db)\<rparr>"

section \<open>Model classifier (\<open>worker/app/services/llm_classifier.py\<close>)\<close>

text \<open>
  The dict parsed from the model's answer. \<open>parse_llm_response\<close> (JSON decoding and two
  regular expressions) and the HTTP call are the environment: \<open>llm_available\<close> is the
  result of the ping at construction, \<open>ollama_post document\<close> the outcome of posting the
  prompt built from the document (\<open>OtherException\<close> stands for any exception other than
  a timeout, also one raised while the answer is decoded), \<open>parse_llm_response\<close> the
  parser. An entry of the dict is \<open>None\<close> when its key is absent.
\<close>

record classification =
  cl_category :: "string option"
  cl_confidence :: "real option"
  cl_suggested_filename :: "string option"
  cl_target_path :: "string option"

datatype http_outcome =
    TimeoutException
  | OtherException
  | Response int string

record llm_env =
  llm_available :: bool
  llm_model :: string
  ollama_post :: "Document \<Rightarrow> http_outcome"
  parse_llm_response :: "string \<Rightarrow> classification option"

definition LLMClassifier_classify :: "llm_env \<Rightarrow> Document \<Rightarrow> classification option" where
  "LLMClassifier_classify llm document =
     (if \<not> llm_available llm then None
      else case ollama_post llm document of
          TimeoutException \<Rightarrow> None
        | OtherException \<Rightarrow> None
        | Response status_code llm_text \<Rightarrow>
            if status_code \<noteq> 200 then None
            else (case parse_llm_response llm llm_text of
                None \<Rightarrow> None
              | Some c \<Rightarrow>
                  if cl_category c = None \<or> cl_confidence c = None then None
                  else Some c))"

section \<open>Classification handler (\<open>worker/handlers/classify_document.py\<close>)\<close>

record classify_result =
  res_method :: string
  res_confidence :: real
  res_category :: "string option"
  res_rule_name :: "string option"

text \<open>
  In \<open>execute\<close> the session \<open>db\<close> is \<open>SessionLocal()\<close>, a \<open>Session\<close> made by
  \<open>sessionmaker\<close> in \<open>core/database.py\<close>. Each of the three branches asks for the time
  with \<open>db.execute(db.query(db.func.now())).scalar()\<close>. A \<open>Session\<close> has no attribute
  \<open>func\<close>, so evaluating \<open>db.func\<close> raises \<open>AttributeError\<close> before any query is
  built.
\<close>

definition session_func_now :: "error + nat" where
  "session_func_now = Inl AttributeError"

text \<open>
  The body of \<open>ClassifyDocumentHandler.execute\<close> up to the line that asks for the time:
  the document object as the branch has changed it in the session, and the dict the
  branch returns at its end.
\<close>

definition classify_in_session ::
    "regex_engine \<Rightarrow> llm_env \<Rightarrow> database \<Rightarrow> int \<Rightarrow> error + Document \<times> classify_result" where
  "classify_in_session rx llm db document_id =
     (case get_document db document_id of
        None \<Rightarrow> Inl (DocumentNotFound document_id)
      | Some document \<Rightarrow>
          (case RulesEngine_classify_document rx (rules db) document of
             Inl e \<Rightarrow> Inl e
           | Inr (Some (rule_result, document1)) \<Rightarrow>
               (let document2 = document1\<lparr>
                      classification_confidence := Some 1,
                      llm_trace := Some (TraceRules (rr_rule_id rule_result)
                                           (rr_rule_name rule_result) (rr_changes rule_result)),
                      status := ANALYZED\<rparr>
                in Inr (document2,
                        \<lparr> res_method = ''rules'', res_confidence = 1,
                          res_category = category document2,
                          res_rule_name = Some (rr_rule_name rule_result) \<rparr>))
           | Inr None \<Rightarrow>
               (case LLMClassifier_classify llm document of
                  Some llm_result \<Rightarrow>
                    (let confidence = (case cl_confidence llm_result of
                                         None \<Rightarrow> 1 / 2 | Some c \<Rightarrow> c);
                         document2 = document\<lparr>
                           category := cl_category llm_result,
                           suggested_filename := cl_suggested_filename llm_result,
                           suggested_target_path := cl_target_path llm_result,
                           classification_confidence := Some confidence,
                           llm_trace := Some (TraceLLM (llm_model llm)),
                           status := (if confidence \<ge> 8 / 10 then ANALYZED else NEEDS_REVIEW)\<rparr>
                     in Inr (document2,
                             \<lparr> res_method = ''llm'', res_confidence = confidence,
                               res_category = category document2,
                               res_rule_name = None \<rparr>))
                | None \<Rightarrow>
                    Inr (document\<lparr>status := NEEDS_REVIEW\<rparr>,
                         \<lparr> res_method = ''none'', res_confidence = 0,
                           res_category = None, res_rule_name = None \<rparr>))))"

text \<open>
  \<open>ClassifyDocumentHandler.execute\<close>: the branch, then the time, then
  \<open>document.analyzed_at = ...\<close>, \<open>db.commit()\<close> and the return. An exception on the way
  leaves the store as it was (\<open>finally: db.close()\<close>). The function returns the
  handler's result and the store after the call.
\<close>

definition ClassifyDocumentHandler_execute ::
    "regex_engine \<Rightarrow> llm_env \<Rightarrow> database \<Rightarrow> int \<Rightarrow> (error + classify_result) \<times> database" where
  "ClassifyDocumentHandler_execute rx llm db document_id =
     (case classify_in_session rx llm db document_id of
        Inl e \<Rightarrow> (Inl e, db)
      | Inr (document2, result) \<Rightarrow>
          (case session_func_now of
             Inl e \<Rightarrow> (Inl e, db)
           | Inr t \<Rightarrow>
               (Inr result, commit_document db (document2\<lparr>analyzed_at := Some t\<rparr>))))"

section \<open>Example data\<close>

definition example_document :: Document where
  "example_document = \<lparr> doc_id = 1, file_sha256 = ''9f2c'', original_filename = ''scan.pdf'',
     mime_type = Some ''application/pdf'', file_size_bytes = Some 2048,
     inbox_relpath = Some ''00_inbox/scan.pdf'',
     ingested_relpath = Some ''01_ingested/9f2c_scan.pdf'',
     status = ANALYZING, extracted_text = Some ''Invoice 42'', page_count = Some 1,
     category = None, suggested_filename = None, suggested_target_path = None,
     classification_confidence = None, llm_trace = None, analyzed_at = None \<rparr>"

text \<open>A regular expression engine that rejects every pattern.\<close>

definition rejecting_regex :: regex_engine where
  "rejecting_regex pattern s = None"

definition no_actions :: actions where
  "no_actions = \<lparr> act_category = None, act_target_path = None,
     act_suggested_filename = None, act_tags = None \<rparr>"

definition rule_broken :: Rule where
  "rule_broken = \<lparr> rule_id = 4, rule_name = ''broken'', priority = 9,
     conditions = [FilenameRegex ''(''],
     rule_actions = no_actions\<lparr>act_category := Some ''Broken''\<rparr>, is_active = True \<rparr>"

definition rule_pdf :: Rule where
  "rule_pdf = \<lparr> rule_id = 3, rule_name = ''pdf'', priority = 7,
     conditions = [MimeTypeContains ''PDF''],
     rule_actions = no_actions\<lparr>act_category := Some ''Invoice''\<rparr>, is_active = True \<rparr>"

definition rule_disabled :: Rule where
  "rule_disabled = \<lparr> rule_id = 2, rule_name = ''disabled'', priority = 1,
     conditions = [],
     rule_actions = no_actions\<lparr>act_category := Some ''Disabled''\<rparr>, is_active = False \<rparr>"

definition rule_contract :: Rule where
  "rule_contract = \<lparr> rule_id = 1, rule_name = ''contract'', priority = 5,
     conditions = [TextContains ''contract''],
     rule_actions = no_actions\<lparr>act_category := Some ''Contract''\<rparr>, is_active = True \<rparr>"

definition unavailable_llm :: llm_env where
  "unavailable_llm = \<lparr> llm_available = False, llm_model = ''llama'',
     ollama_post = (\<lambda>d. TimeoutException), parse_llm_response = (\<lambda>s. None) \<rparr>"

definition example_database :: database where
  "example_database = \<lparr> documents = [example_document],
     rules = [rule_broken, rule_pdf, rule_disabled, rule_contract], chunks = [] \<rparr>"

section \<open>Job queue (\<open>api/app/services/queue.py\<close>)\<close>

text \<open>
  A job's payload dict. \<open>p_mime_type\<close> is \<open>None\<close> when the key is absent, \<open>Some None\<close>
  when its value is \<open>None\<close>; the other optional keys are absent when \<open>None\<close>.
\<close>

record payload =
  p_document_id :: int
  p_file_path :: "string option"
  p_mime_type :: "string option option"
  p_depends_on :: "string option"

text \<open>The \<open>job_data\<close> dict built by \<open>enqueue\<close>; its \<open>status\<close> entry is always PENDING.\<close>

record Job =
  job_id :: string
  job_type :: string
  job_payload :: payload
  job_priority :: int
  job_document_id :: "int option"
  created_at :: string

subsection \<open>\<open>json.dumps\<close> of a job\<close>

definition hex_digit :: "nat \<Rightarrow> char" where
  "hex_digit n = (if n < 10 then char_of (48 + n) else char_of (87 + n))"

text \<open>A string literal as \<open>json.dumps\<close> writes it (\<open>ensure_ascii\<close> is on).\<close>

definition json_escape_char :: "char \<Rightarrow> string" where
  "json_escape_char c =
     (let n = (of_char c :: nat)
      in if n = 34 then [CHR 0x5C, CHR 0x22]
         else if n = 92 then [CHR 0x5C, CHR 0x5C]
         else if n = 10 then [CHR 0x5C, CHR ''n'']
         else if n = 13 then [CHR 0x5C, CHR ''r'']
         else if n = 9 then [CHR 0x5C, CHR ''t'']
         else if n = 8 then [CHR 0x5C, CHR ''b'']
         else if n = 12 then [CHR 0x5C, CHR ''f'']
         else if 32 \<le> n \<and> n \<le> 126 then [c]
         else [CHR 0x5C, CHR ''u'', CHR ''0'', CHR ''0'', hex_digit (n div 16), hex_digit (n mod 16)])"

definition json_str :: "string \<Rightarrow> string" where
  "json_str s = [CHR 0x22] @ concat (map json_escape_char s) @ [CHR 0x22]"

function nat_str :: "nat \<Rightarrow> string" where
  "nat_str n = (if n < 10 then [char_of (48 + n)]
                else nat_str (n div 10) @ [char_of (48 + n mod 10)])"
  by pat_completeness auto
termination
  by (relation "measure id") auto

definition int_str :: "int \<Rightarrow> string" where
  "int_str i = (if i < 0 then CHR ''-'' # nat_str (nat (- i)) else nat_str (nat i))"

definition json_opt_int :: "int option \<Rightarrow> string" where
  "json_opt_int i = (case i of None \<Rightarrow> ''null'' | Some n \<Rightarrow> int_str n)"

definition json_opt_str :: "string option \<Rightarrow> string" where
  "json_opt_str s = (case s of None \<Rightarrow> ''null'' | Some t \<Rightarrow> json_str t)"

text \<open>The payload's keys in the order the callers write them.\<close>

definition json_payload :: "payload \<Rightarrow> string" where
  "json_payload p =
     ''{'' @ json_str ''document_id'' @ '': '' @ int_str (p_document_id p)
     @ (case p_file_path p of None \<Rightarrow> []
        | Some f \<Rightarrow> '', '' @ json_str ''file_path'' @ '': '' @ json_str f)
     @ (case p_mime_type p of None \<Rightarrow> []
        | Some m \<Rightarrow> '', '' @ json_str ''mime_type'' @ '': '' @ json_opt_str m)
     @ (case p_depends_on p of None \<Rightarrow> []
        | Some d \<Rightarrow> '', '' @ json_str ''depends_on'' @ '': '' @ json_str d)
     @ ''}''"

definition json_dumps :: "Job \<Rightarrow> string" where
  "json_dumps j =
     ''{'' @ json_str ''job_id'' @ '': '' @ json_str (job_id j)
     @ '', '' @ json_str ''job_type'' @ '': '' @ json_str (job_type j)
     @ '', '' @ json_str ''payload'' @ '': '' @ json_payload (job_payload j)
     @ '', '' @ json_str ''priority'' @ '': '' @ int_str (job_priority j)
     @ '', '' @ json_str ''document_id'' @ '': '' @ json_opt_int (job_document_id j)
     @ '', '' @ json_str ''created_at'' @ '': '' @ json_str (created_at j)
     @ '', '' @ json_str ''status'' @ '': '' @ json_str ''PENDING''
     @ ''}''"

subsection \<open>The Redis keys\<close>

text \<open>
  The sorted set \<open>smartsortierer:jobs\<close>: members are the serialized jobs, scores their
  priorities. Redis keeps a sorted set ordered by score and, among equal scores, by the
  members compared as byte strings; \<open>zadd\<close> of a member that is present replaces its
  score. The model keeps the set as the list of its entries in that order, each entry a
  job (standing for its serialization, which \<open>json.loads\<close> turns back into the dict)
  and its score.

  Redis stores a score as a double. The client sends the priority as decimal text and
  Redis reads it as the nearest double, ties to the even significand; an integer whose
  nearest double would be infinite is refused ("value is not a valid float"). Every
  double of magnitude \<open>2^53\<close> or more is an integer, so the score of an integer priority
  is again an integer: \<open>redis_score\<close> gives it, or \<open>None\<close> when Redis refuses.
\<close>

function bit_length :: "int \<Rightarrow> nat" where
  "bit_length n = (if n \<le> 0 then 0 else Suc (bit_length (n div 2)))"
  by pat_completeness auto
termination
  by (relation "measure nat") auto

definition redis_score :: "int \<Rightarrow> int option" where
  "redis_score p =
     (let m = \<bar>p\<bar>
      in if m < 2 ^ 53 then Some p
         else (let e = bit_length m - 53;
                   q = m div 2 ^ e;
                   r = m mod 2 ^ e;
                   half = 2 ^ (e - 1);
                   v = (if r > half \<or> (r = half \<and> odd q) then q + 1 else q) * 2 ^ e
               in if v \<ge> 2 ^ 1024 then None
                  else Some (if p < 0 then - v else v)))"

type_synonym zset = "(Job \<times> int) list"

definition zkey :: "Job \<times> int \<Rightarrow> int \<times> string" where
  "zkey e = (snd e, json_dumps (fst e))"

text \<open>\<open>zadd\<close> of a member with a score that Redis has accepted.\<close>

definition zadd :: "zset \<Rightarrow> Job \<Rightarrow> int \<Rightarrow> zset" where
  "zadd z j score =
     insort_key zkey (j, score) (filter (\<lambda>e. json_dumps (fst e) \<noteq> json_dumps j) z)"

text \<open>
  \<open>bzpopmin\<close>: the first entry in the set's order, removed; on an empty set the call
  times out and returns nothing.
\<close>

definition bzpopmin :: "zset \<Rightarrow> ((Job \<times> int) \<times> zset) option" where
  "bzpopmin z = (case z of [] \<Rightarrow> None | e # rest \<Rightarrow> Some (e, rest))"

text \<open>The hash \<open>smartsortierer:job:<id>\<close>; a field that was never set is \<open>None\<close>.\<close>

record job_hash =
  h_data :: "Job option"
  h_status :: "string option"
  h_result :: "string option"
  h_error :: "string option"

definition empty_hash :: job_hash where
  "empty_hash = \<lparr> h_data = None, h_status = None, h_result = None, h_error = None \<rparr>"

record queue =
  jobs_zset :: zset
  job_hashes :: "string \<Rightarrow> job_hash option"

definition hash_of :: "queue \<Rightarrow> string \<Rightarrow> job_hash" where
  "hash_of q i = (case job_hashes q i of None \<Rightarrow> empty_hash | Some h \<Rightarrow> h)"

definition empty_queue :: queue where
  "empty_queue = \<lparr> jobs_zset = [], job_hashes = (\<lambda>i. None) \<rparr>"

text \<open>
  \<open>enqueue\<close>. The fresh \<open>uuid4\<close> and the clock reading are the environment's; they are
  the first two arguments. When Redis refuses the score, \<open>zadd\<close> raises and the hash is
  not written. Otherwise the function returns the job id and the new queue.
\<close>

definition enqueue :: "string \<Rightarrow> string \<Rightarrow> queue \<Rightarrow> string \<Rightarrow> payload \<Rightarrow> int \<Rightarrow> int option
    \<Rightarrow> error + string \<times> queue" where
  "enqueue uuid now q jtype pl prio document_id =
     (let job_data = \<lparr> job_id = uuid, job_type = jtype, job_payload = pl,
                        job_priority = prio, job_document_id = document_id,
                        created_at = now \<rparr>
      in case redis_score prio of
           None \<Rightarrow> Inl ResponseError
         | Some score \<Rightarrow>
             Inr (uuid,
                  q\<lparr> jobs_zset := zadd (jobs_zset q) job_data score,
                     job_hashes := (job_hashes q)(uuid \<mapsto>
                        (hash_of q uuid)\<lparr>h_data := Some job_data,
                                         h_status := Some ''PENDING''\<rparr>) \<rparr>))"

definition dequeue :: "queue \<Rightarrow> Job option \<times> queue" where
  "dequeue q =
     (case bzpopmin (jobs_zset q) of
        None \<Rightarrow> (None, q)
      | Some ((job_data, prio), rest) \<Rightarrow>
          (Some job_data,
           q\<lparr> jobs_zset := rest,
              job_hashes := (job_hashes q)(job_id job_data \<mapsto>
                (hash_of q (job_id job_data))\<lparr>h_status := Some ''RUNNING''\<rparr>) \<rparr>))"

text \<open>\<open>complete_job\<close> with the serialized, non-empty result dict of a handler.\<close>

definition complete_job :: "queue \<Rightarrow> string \<Rightarrow> string \<Rightarrow> queue" where
  "complete_job q i result =
     q\<lparr> job_hashes := (job_hashes q)(i \<mapsto>
          (hash_of q i)\<lparr>h_status := Some ''COMPLETED'', h_result := Some result\<rparr>) \<rparr>"

definition fail_job :: "queue \<Rightarrow> string \<Rightarrow> string \<Rightarrow> queue" where
  "fail_job q i err =
     q\<lparr> job_hashes := (job_hashes q)(i \<mapsto>
          (hash_of q i)\<lparr>h_status := Some ''FAILED'', h_error := Some err\<rparr>) \<rparr>"

definition get_queue_length :: "queue \<Rightarrow> nat" where
  "get_queue_length q = length (jobs_zset q)"

text \<open>A request to \<open>enqueue\<close>: the environment's uuid and time, and the arguments.\<close>

record enqueue_call =
  e_uuid :: string
  e_now :: string
  e_type :: string
  e_payload :: payload
  e_priority :: int
  e_document_id :: "int option"

text \<open>The queue after the call; a call that raises leaves it as it was.\<close>

definition enqueue_call :: "queue \<Rightarrow> enqueue_call \<Rightarrow> queue" where
  "enqueue_call q c =
     (case enqueue (e_uuid c) (e_now c) q (e_type c) (e_payload c) (e_priority c)
             (e_document_id c) of
        Inl e \<Rightarrow> q
      | Inr (i, q') \<Rightarrow> q')"

definition job_of_call :: "enqueue_call \<Rightarrow> Job" where
  "job_of_call c = \<lparr> job_id = e_uuid c, job_type = e_type c, job_payload = e_payload c,
     job_priority = e_priority c, job_document_id = e_document_id c, created_at = e_now c \<rparr>"

text \<open>A sequence of \<open>enqueue\<close> calls on a queue.\<close>

definition enqueue_all :: "queue \<Rightarrow> enqueue_call list \<Rightarrow> queue" where
  "enqueue_all q cs = foldl enqueue_call q cs"

text \<open>\<open>dequeue\<close> repeated \<open>n\<close> times: the jobs returned, in the order returned.\<close>

fun dequeue_n :: "nat \<Rightarrow> queue \<Rightarrow> Job list \<times> queue" where
  "dequeue_n 0 q = ([], q)"
| "dequeue_n (Suc n) q =
     (case dequeue q of
        (None, q') \<Rightarrow> ([], q')
      | (Some j, q') \<Rightarrow> (let (js, q'') = dequeue_n n q' in (j # js, q'')))"


subsection \<open>Example calls\<close>

text \<open>The first two calls of an ingest of document 1: priorities 50 and 100, chained.\<close>

definition call_extract :: enqueue_call where
  "call_extract = \<lparr> e_uuid = ''7c9e6679-7425-40de-944b-e07fc1f90ae7'',
     e_now = ''2024-03-01T10:15:00.000001'', e_type = ''extract_text'',
     e_payload = \<lparr> p_document_id = 1, p_file_path = Some ''01_ingested/9f2c_scan.pdf'',
                    p_mime_type = Some (Some ''application/pdf''), p_depends_on = None \<rparr>,
     e_priority = 50, e_document_id = Some 1 \<rparr>"

definition call_chunk :: enqueue_call where
  "call_chunk = \<lparr> e_uuid = ''c56a4180-65aa-42ec-a945-5fd21dec0538'',
     e_now = ''2024-03-01T10:15:00.000002'', e_type = ''chunk_text'',
     e_payload = \<lparr> p_document_id = 1, p_file_path = None, p_mime_type = None,
                    p_depends_on = Some ''7c9e6679-7425-40de-944b-e07fc1f90ae7'' \<rparr>,
     e_priority = 100, e_document_id = Some 1 \<rparr>"

text \<open>A later call of the same priority 100, for document 2.\<close>

definition call_chunk_later :: enqueue_call where
  "call_chunk_later = \<lparr> e_uuid = ''1b4e28ba-2fa1-41d2-883f-0016d3cca427'',
     e_now = ''2024-03-01T10:15:07.000000'', e_type = ''chunk_text'',
     e_payload = \<lparr> p_document_id = 2, p_file_path = None, p_mime_type = None,
                    p_depends_on = Some ''0f8fad5b-d9cb-469f-a165-70867728950e'' \<rparr>,
     e_priority = 100, e_document_id = Some 2 \<rparr>"

section \<open>Chunking handler (\<open>worker/handlers/chunk_text.py\<close>)\<close>

text \<open>\<open>str.isspace\<close> on the code points 0..255.\<close>

definition is_space :: "char \<Rightarrow> bool" where
  "is_space c =
     (let n = (of_char c :: nat)
      in (9 \<le> n \<and> n \<le> 13) \<or> (28 \<le> n \<and> n \<le> 32) \<or> n = 133 \<or> n = 160)"

definition strip :: "string \<Rightarrow> string" where
  "strip s = rev (dropWhile is_space (rev (dropWhile is_space s)))"

text \<open>\<open>text.split("\n\n")\<close>: the pieces between the occurrences, found left to right.\<close>

fun split_paragraphs :: "string \<Rightarrow> string list" where
  "split_paragraphs [] = [[]]"
| "split_paragraphs [c] = [[c]]"
| "split_paragraphs (a # b # rest) =
     (if a = CHR 0x0A \<and> b = CHR 0x0A then [] # split_paragraphs rest
      else (case split_paragraphs (b # rest) of
              [] \<Rightarrow> [[a]]
            | p # ps \<Rightarrow> (a # p) # ps))"

text \<open>\<open>"\n\n".join(parts)\<close>\<close>

fun join_paragraphs :: "string list \<Rightarrow> string" where
  "join_paragraphs [] = []"
| "join_paragraphs [p] = p"
| "join_paragraphs (p # q # ps) = p @ [CHR 0x0A, CHR 0x0A] @ join_paragraphs (q # ps)"

text \<open>\<open>len(chunk_text.split())\<close>: the number of maximal runs of non-space characters.\<close>

fun count_tokens :: "bool \<Rightarrow> string \<Rightarrow> nat" where
  "count_tokens in_word [] = 0"
| "count_tokens in_word (c # cs) =
     (if is_space c then count_tokens False cs
      else (if in_word then 0 else 1) + count_tokens True cs)"

text \<open>
  The loop of \<open>split_into_chunks\<close> over the paragraphs, with its three variables
  \<open>chunks\<close> (here \<open>chunk_list\<close>), \<open>current_chunk\<close> and \<open>current_length\<close>. In the overlap branch
  \<open>current_chunk[-1]\<close> is read after the assignment and so is the new paragraph.
\<close>

fun chunk_loop :: "nat \<Rightarrow> string list \<Rightarrow> string list \<Rightarrow> string list \<Rightarrow> nat \<Rightarrow> string list" where
  "chunk_loop chunk_size [] chunk_list current_chunk current_length =
     (if current_chunk \<noteq> [] then chunk_list @ [join_paragraphs current_chunk] else chunk_list)"
| "chunk_loop chunk_size (para # paras) chunk_list current_chunk current_length =
     (let para_length = length para
      in if current_length + para_length > chunk_size \<and> current_chunk \<noteq> []
         then (if length current_chunk > 1
               then chunk_loop chunk_size paras (chunk_list @ [join_paragraphs current_chunk])
                      [last current_chunk, para] (length para + para_length)
               else chunk_loop chunk_size paras (chunk_list @ [join_paragraphs current_chunk])
                      [para] para_length)
         else chunk_loop chunk_size paras chunk_list (current_chunk @ [para])
                (current_length + para_length))"

definition chunk_size :: nat where
  "chunk_size = 800"

definition split_into_chunks :: "string \<Rightarrow> string list" where
  "split_into_chunks text =
     (if text = [] \<or> strip text = [] then []
      else chunk_loop chunk_size
             (map strip (filter (\<lambda>p. strip p \<noteq> []) (split_paragraphs text))) [] [] 0)"

record chunk_result =
  chunks_count :: nat
  total_chars :: nat

text \<open>
  The rows the loop over \<open>enumerate(text_chunks)\<close> adds. The primary key of a new row
  comes from the database; \<open>fresh idx\<close> is the key given to the row of index \<open>idx\<close>.
\<close>

definition new_chunks :: "(nat \<Rightarrow> int) \<Rightarrow> int \<Rightarrow> string list \<Rightarrow> DocumentChunk list" where
  "new_chunks fresh document_id text_chunks =
     map (\<lambda>(idx, t). \<lparr> chunk_id = fresh idx, chunk_document_id = document_id,
                        chunk_index = idx, chunk_text = t,
                        chunk_tokens = count_tokens False t, qdrant_point_id = None \<rparr>)
       (enumerate 0 text_chunks)"

definition ChunkTextHandler_execute :: "(nat \<Rightarrow> int) \<Rightarrow> database \<Rightarrow> int
    \<Rightarrow> (error + chunk_result) \<times> database" where
  "ChunkTextHandler_execute fresh db document_id =
     (case get_document db document_id of
        None \<Rightarrow> (Inl (DocumentNotFound document_id), db)
      | Some document \<Rightarrow>
          if falsy_str (extracted_text document)
          then (Inl (NoExtractedText document_id), db)
          else
            (let text_chunks = split_into_chunks (the (extracted_text document));
                 kept = filter (\<lambda>c. chunk_document_id c \<noteq> document_id) (chunks db);
                 db1 = db\<lparr>chunks := kept @ new_chunks fresh document_id text_chunks\<rparr>
             in (Inr \<lparr> chunks_count = length text_chunks,
                       total_chars = sum_list (map length text_chunks) \<rparr>,
                 commit_document db1 (document\<lparr>status := ANALYZING\<rparr>))))"

subsection \<open>Example data\<close>

definition old_chunk :: DocumentChunk where
  "old_chunk = \<lparr> chunk_id = 40, chunk_document_id = 1, chunk_index = 0,
     chunk_text = ''stale'', chunk_tokens = 1, qdrant_point_id = None \<rparr>"

definition other_chunk :: DocumentChunk where
  "other_chunk = \<lparr> chunk_id = 41, chunk_document_id = 2, chunk_index = 0,
     chunk_text = ''other document'', chunk_tokens = 2, qdrant_point_id = None \<rparr>"

definition chunked_database :: database where
  "chunked_database = example_database\<lparr>chunks := [old_chunk, other_chunk]\<rparr>"

section \<open>Storage service (\<open>api/app/services/storage.py\<close>)\<close>

text \<open>
  An absolute path is the list of its components below \<open>/\<close>. File contents are bytes.
\<close>

type_synonym path = "string list"
type_synonym bytes = "8 word list"

text \<open>
  The operating system under the service. \<open>StorageService\<close> reaches the file system
  only through \<open>pathlib\<close>, \<open>open\<close> and \<open>shutil\<close>; each such call is a field here, over
  a file-system state of any type \<open>'fs\<close>. The calls that only look return a value, the
  calls that change something return the new state (or the exception raised).
  \<open>realpath fs parts\<close> is \<open>Path.resolve()\<close> of the path with the raw components
  \<open>parts\<close>: it removes empty and \<open>.\<close> components, follows \<open>..\<close> and every symbolic
  link, and returns the canonical absolute path. \<open>storage_root\<close> is the root, already
  resolved by the constructor.
\<close>

record 'fs StorageService =
  storage_root :: path
  realpath :: "'fs \<Rightarrow> string list \<Rightarrow> path"
  path_exists :: "'fs \<Rightarrow> path \<Rightarrow> bool"
  is_dir :: "'fs \<Rightarrow> path \<Rightarrow> bool"
  is_file :: "'fs \<Rightarrow> path \<Rightarrow> bool"
  st_size :: "'fs \<Rightarrow> path \<Rightarrow> int"
  iterdir :: "'fs \<Rightarrow> path \<Rightarrow> error + string list"
  read_bytes :: "'fs \<Rightarrow> path \<Rightarrow> error + bytes"
  mkdir_parents :: "'fs \<Rightarrow> path \<Rightarrow> error + 'fs"
  write_bytes :: "'fs \<Rightarrow> path \<Rightarrow> bytes \<Rightarrow> error + 'fs"
  shutil_move :: "'fs \<Rightarrow> path \<Rightarrow> path \<Rightarrow> error + 'fs"
  shutil_copy2 :: "'fs \<Rightarrow> path \<Rightarrow> path \<Rightarrow> error + 'fs"
  unlink :: "'fs \<Rightarrow> path \<Rightarrow> error + 'fs"
  rmtree :: "'fs \<Rightarrow> path \<Rightarrow> error + 'fs"
  guess_type :: "string \<Rightarrow> string option"
  sha256_hexdigest :: "bytes \<Rightarrow> string"

text \<open>The components of a path string, split at every \<open>/\<close>.\<close>

fun split_slash :: "string \<Rightarrow> string list" where
  "split_slash [] = [[]]"
| "split_slash (c # cs) =
     (if c = CHR ''/'' then [] # split_slash cs
      else (case split_slash cs of
              [] \<Rightarrow> [[c]]
            | p # ps \<Rightarrow> (c # p) # ps))"

text \<open>
  \<open>self.storage_root / relpath\<close>: an absolute \<open>relpath\<close> replaces the root, any other
  is appended to it.
\<close>

definition raw_join :: "path \<Rightarrow> string \<Rightarrow> string list" where
  "raw_join root_path relpath =
     (if relpath \<noteq> [] \<and> hd relpath = CHR ''/'' then split_slash relpath
      else root_path @ split_slash relpath)"

text \<open>\<open>full_path.relative_to(root)\<close> succeeds when the root's components lead \<open>full_path\<close>.\<close>

definition relative_to :: "path \<Rightarrow> path \<Rightarrow> path option" where
  "relative_to full_path root_path =
     (if take (length root_path) full_path = root_path
      then Some (drop (length root_path) full_path)
      else None)"

definition safe_join :: "'fs StorageService \<Rightarrow> 'fs \<Rightarrow> string \<Rightarrow> error + path" where
  "safe_join S fs relpath =
     (let full_path = realpath S fs (raw_join (storage_root S) relpath)
      in case relative_to full_path (storage_root S) of
           None \<Rightarrow> Inl PathTraversalError
         | Some r \<Rightarrow> Inr full_path)"

text \<open>The metadata dict of \<open>stat\<close> and of a directory entry, without the two times.\<close>

record metadata =
  md_name :: string
  md_path :: string
  md_type :: string
  md_size :: "int option"
  md_mime_type :: "string option"

definition path_name :: "path \<Rightarrow> string" where
  "path_name p = (if p = [] then [] else last p)"

fun join_slash :: "string list \<Rightarrow> string" where
  "join_slash [] = []"
| "join_slash [p] = p"
| "join_slash (p # q # ps) = p @ ''/'' @ join_slash (q # ps)"

definition describe :: "'fs StorageService \<Rightarrow> 'fs \<Rightarrow> path \<Rightarrow> string \<Rightarrow> metadata" where
  "describe S fs p shown =
     \<lparr> md_name = path_name p, md_path = shown,
       md_type = (if is_dir S fs p then ''directory'' else ''file''),
       md_size = (if is_file S fs p then Some (st_size S fs p) else None),
       md_mime_type = (if is_file S fs p then guess_type S (path_name p) else None) \<rparr>"

text \<open>A \<open>PermissionError\<close> inside one of the \<open>try\<close> blocks becomes a \<open>StorageError\<close>.\<close>

definition wrap_permission :: "string \<Rightarrow> error \<Rightarrow> error" where
  "wrap_permission msg e = (if e = PermissionError then StorageError msg else e)"

definition list_directory :: "'fs StorageService \<Rightarrow> 'fs \<Rightarrow> string
    \<Rightarrow> (error + metadata list) \<times> 'fs" where
  "list_directory S fs relpath =
     (case safe_join S fs relpath of
        Inl e \<Rightarrow> (Inl e, fs)
      | Inr abs_path \<Rightarrow>
          if \<not> path_exists S fs abs_path then (Inl (StorageError ''Path does not exist''), fs)
          else if \<not> is_dir S fs abs_path then (Inl (StorageError ''Path is not a directory''), fs)
          else (case iterdir S fs abs_path of
                  Inl e \<Rightarrow> (Inl (wrap_permission ''Permission denied'' e), fs)
                | Inr names \<Rightarrow>
                    (Inr (map (\<lambda>n. describe S fs (abs_path @ [n])
                                 (join_slash (drop (length (storage_root S)) (abs_path @ [n]))))
                            (sort_key (\<lambda>n. (\<not> is_dir S fs (abs_path @ [n]), n)) names)),
                     fs)))"

definition stat :: "'fs StorageService \<Rightarrow> 'fs \<Rightarrow> string \<Rightarrow> (error + metadata) \<times> 'fs" where
  "stat S fs relpath =
     (case safe_join S fs relpath of
        Inl e \<Rightarrow> (Inl e, fs)
      | Inr abs_path \<Rightarrow>
          if \<not> path_exists S fs abs_path then (Inl (StorageError ''Path does not exist''), fs)
          else (Inr (describe S fs abs_path relpath), fs))"

text \<open>\<open>read_file\<close> returns an open handle; the model returns what can be read from it.\<close>

definition read_file :: "'fs StorageService \<Rightarrow> 'fs \<Rightarrow> string \<Rightarrow> (error + bytes) \<times> 'fs" where
  "read_file S fs relpath =
     (case safe_join S fs relpath of
        Inl e \<Rightarrow> (Inl e, fs)
      | Inr abs_path \<Rightarrow>
          if \<not> path_exists S fs abs_path then (Inl (StorageError ''File does not exist''), fs)
          else if \<not> is_file S fs abs_path then (Inl (StorageError ''Path is not a file''), fs)
          else (case read_bytes S fs abs_path of
                  Inl e \<Rightarrow> (Inl (wrap_permission ''Permission denied'' e), fs)
                | Inr content \<Rightarrow> (Inr content, fs)))"

definition write_file :: "'fs StorageService \<Rightarrow> 'fs \<Rightarrow> string \<Rightarrow> bytes \<Rightarrow> bool
    \<Rightarrow> (error + metadata) \<times> 'fs" where
  "write_file S fs relpath content overwrite =
     (case safe_join S fs relpath of
        Inl e \<Rightarrow> (Inl e, fs)
      | Inr abs_path \<Rightarrow>
          if path_exists S fs abs_path \<and> \<not> overwrite
          then (Inl (StorageError ''File already exists''), fs)
          else (case mkdir_parents S fs (butlast abs_path) of
                  Inl e \<Rightarrow> (Inl e, fs)
                | Inr fs1 \<Rightarrow>
                    (case write_bytes S fs1 abs_path content of
                       Inl e \<Rightarrow> (Inl (wrap_permission ''Permission denied'' e), fs1)
                     | Inr fs2 \<Rightarrow> stat S fs2 relpath)))"

definition move_file :: "'fs StorageService \<Rightarrow> 'fs \<Rightarrow> string \<Rightarrow> string \<Rightarrow> bool
    \<Rightarrow> (error + metadata) \<times> 'fs" where
  "move_file S fs src_relpath dest_relpath overwrite =
     (case safe_join S fs src_relpath of
        Inl e \<Rightarrow> (Inl e, fs)
      | Inr src_abs \<Rightarrow>
          (case safe_join S fs dest_relpath of
             Inl e \<Rightarrow> (Inl e, fs)
           | Inr dest_abs \<Rightarrow>
               if \<not> path_exists S fs src_abs
               then (Inl (StorageError ''Source does not exist''), fs)
               else if path_exists S fs dest_abs \<and> \<not> overwrite
               then (Inl (StorageError ''Destination already exists''), fs)
               else (case mkdir_parents S fs (butlast dest_abs) of
                       Inl e \<Rightarrow> (Inl e, fs)
                     | Inr fs1 \<Rightarrow>
                         (case shutil_move S fs1 src_abs dest_abs of
                            Inl e \<Rightarrow> (Inl (wrap_permission ''Permission denied'' e), fs1)
                          | Inr fs2 \<Rightarrow> stat S fs2 dest_relpath))))"

definition copy_file :: "'fs StorageService \<Rightarrow> 'fs \<Rightarrow> string \<Rightarrow> string \<Rightarrow> bool
    \<Rightarrow> (error + metadata) \<times> 'fs" where
  "copy_file S fs src_relpath dest_relpath overwrite =
     (case safe_join S fs src_relpath of
        Inl e \<Rightarrow> (Inl e, fs)
      | Inr src_abs \<Rightarrow>
          (case safe_join S fs dest_relpath of
             Inl e \<Rightarrow> (Inl e, fs)
           | Inr dest_abs \<Rightarrow>
               if \<not> path_exists S fs src_abs
               then (Inl (StorageError ''Source does not exist''), fs)
               else if \<not> is_file S fs src_abs
               then (Inl (StorageError ''Source is not a file''), fs)
               else if path_exists S fs dest_abs \<and> \<not> overwrite
               then (Inl (StorageError ''Destination already exists''), fs)
               else (case mkdir_parents S fs (butlast dest_abs) of
                       Inl e \<Rightarrow> (Inl e, fs)
                     | Inr fs1 \<Rightarrow>
                         (case shutil_copy2 S fs1 src_abs dest_abs of
                            Inl e \<Rightarrow> (Inl (wrap_permission ''Permission denied'' e), fs1)
                          | Inr fs2 \<Rightarrow> stat S fs2 dest_relpath))))"

definition delete_file :: "'fs StorageService \<Rightarrow> 'fs \<Rightarrow> string \<Rightarrow> (error + bool) \<times> 'fs" where
  "delete_file S fs relpath =
     (case safe_join S fs relpath of
        Inl e \<Rightarrow> (Inl e, fs)
      | Inr abs_path \<Rightarrow>
          if \<not> path_exists S fs abs_path then (Inl (StorageError ''Path does not exist''), fs)
          else if is_file S fs abs_path
          then (case unlink S fs abs_path of
                  Inl e \<Rightarrow> (Inl (wrap_permission ''Permission denied'' e), fs)
                | Inr fs1 \<Rightarrow> (Inr True, fs1))
          else if is_dir S fs abs_path
          then (case rmtree S fs abs_path of
                  Inl e \<Rightarrow> (Inl (wrap_permission ''Permission denied'' e), fs)
                | Inr fs1 \<Rightarrow> (Inr True, fs1))
          else (Inr True, fs))"

definition compute_sha256 :: "'fs StorageService \<Rightarrow> 'fs \<Rightarrow> string \<Rightarrow> (error + string) \<times> 'fs" where
  "compute_sha256 S fs relpath =
     (case safe_join S fs relpath of
        Inl e \<Rightarrow> (Inl e, fs)
      | Inr abs_path \<Rightarrow>
          if \<not> path_exists S fs abs_path \<or> \<not> is_file S fs abs_path
          then (Inl (StorageError ''File does not exist''), fs)
          else (case read_bytes S fs abs_path of
                  Inl e \<Rightarrow> (Inl (wrap_permission ''Permission denied'' e), fs)
                | Inr content \<Rightarrow> (Inr (sha256_hexdigest S content), fs)))"

definition ensure_directory :: "'fs StorageService \<Rightarrow> 'fs \<Rightarrow> string \<Rightarrow> (error + path) \<times> 'fs" where
  "ensure_directory S fs relpath =
     (case safe_join S fs relpath of
        Inl e \<Rightarrow> (Inl e, fs)
      | Inr abs_path \<Rightarrow>
          (case mkdir_parents S fs abs_path of
             Inl e \<Rightarrow> (Inl e, fs)
           | Inr fs1 \<Rightarrow> (Inr abs_path, fs1)))"

subsection \<open>An in-memory file system for the examples\<close>

text \<open>
  A file system without symbolic links: a table from paths to nodes. Resolving a path
  is then a matter of its text alone: \<open>normpath\<close> drops empty and \<open>.\<close> components and
  lets \<open>..\<close> remove the component before it.
\<close>

datatype node = File bytes | Dir

type_synonym memfs = "(path \<times> node) list"

fun normpath_acc :: "path \<Rightarrow> string list \<Rightarrow> path" where
  "normpath_acc acc [] = acc"
| "normpath_acc acc (c # cs) =
     (if c = [] \<or> c = ''.'' then normpath_acc acc cs
      else if c = ''..'' then normpath_acc (butlast acc) cs
      else normpath_acc (acc @ [c]) cs)"

definition normpath :: "string list \<Rightarrow> path" where
  "normpath parts = normpath_acc [] parts"

definition mem_node :: "memfs \<Rightarrow> path \<Rightarrow> node option" where
  "mem_node fs p = (if p = [] then Some Dir else map_of fs p)"

definition mem_put :: "memfs \<Rightarrow> path \<Rightarrow> node \<Rightarrow> memfs" where
  "mem_put fs p n = (p, n) # filter (\<lambda>e. fst e \<noteq> p) fs"

fun mem_mkdirs :: "memfs \<Rightarrow> path \<Rightarrow> nat \<Rightarrow> error + memfs" where
  "mem_mkdirs fs p 0 = Inr fs"
| "mem_mkdirs fs p (Suc k) =
     (case mem_mkdirs fs p k of
        Inl e \<Rightarrow> Inl e
      | Inr fs1 \<Rightarrow>
          (case mem_node fs1 (take (Suc k) p) of
             Some (File b) \<Rightarrow> Inl OSError
           | Some Dir \<Rightarrow> Inr fs1
           | None \<Rightarrow> Inr (mem_put fs1 (take (Suc k) p) Dir)))"

definition mem_copy :: "memfs \<Rightarrow> path \<Rightarrow> path \<Rightarrow> error + memfs" where
  "mem_copy fs src dst =
     (case mem_node fs src of
        Some (File b) \<Rightarrow>
          (case mem_node fs dst of
             Some Dir \<Rightarrow> Inr (mem_put fs (dst @ [path_name src]) (File b))
           | other \<Rightarrow> Inr (mem_put fs dst (File b)))
      | other \<Rightarrow> Inl OSError)"

definition mem_remove :: "memfs \<Rightarrow> path \<Rightarrow> memfs" where
  "mem_remove fs p = filter (\<lambda>e. take (length p) (fst e) \<noteq> p) fs"

definition mem_storage :: "path \<Rightarrow> memfs StorageService" where
  "mem_storage root_path =
     \<lparr> storage_root = root_path,
       realpath = (\<lambda>fs parts. normpath parts),
       path_exists = (\<lambda>fs p. mem_node fs p \<noteq> None),
       is_dir = (\<lambda>fs p. mem_node fs p = Some Dir),
       is_file = (\<lambda>fs p. case mem_node fs p of Some (File b) \<Rightarrow> True | other \<Rightarrow> False),
       st_size = (\<lambda>fs p. case mem_node fs p of Some (File b) \<Rightarrow> int (length b) | other \<Rightarrow> 4096),
       iterdir = (\<lambda>fs p. Inr (map (\<lambda>e. last (fst e))
                    (filter (\<lambda>e. fst e \<noteq> [] \<and> butlast (fst e) = p) fs))),
       read_bytes = (\<lambda>fs p. case mem_node fs p of Some (File b) \<Rightarrow> Inr b | other \<Rightarrow> Inl OSError),
       mkdir_parents = (\<lambda>fs p. mem_mkdirs fs p (length p)),
       write_bytes = (\<lambda>fs p b. case mem_node fs p of
                         Some Dir \<Rightarrow> Inl OSError | other \<Rightarrow> Inr (mem_put fs p (File b))),
       shutil_move = (\<lambda>fs src dst. case mem_copy fs src dst of
                         Inl e \<Rightarrow> Inl e | Inr fs1 \<Rightarrow> Inr (mem_remove fs1 src)),
       shutil_copy2 = mem_copy,
       unlink = (\<lambda>fs p. Inr (mem_remove fs p)),
       rmtree = (\<lambda>fs p. Inr (mem_remove fs p)),
       guess_type = (\<lambda>name. None),
       sha256_hexdigest = (\<lambda>b. ''9f2c'') \<rparr>"

definition example_root :: path where
  "example_root = [''srv'', ''storage'']"

definition example_fs :: memfs where
  "example_fs =
     [([''srv''], Dir), ([''srv'', ''storage''], Dir),
      ([''srv'', ''storage'', ''00_inbox''], Dir),
      ([''srv'', ''storage'', ''00_inbox'', ''scan.pdf''], File [37, 80, 68, 70]),
      ([''etc''], Dir),
      ([''etc'', ''passwd''], File [114, 111, 111, 116])]"

text \<open>
  The same file system with one symbolic link, \<open>00_inbox/out\<close>, that points to
  \<open>/etc\<close>: resolving a path through the link lands below \<open>/etc\<close>.
\<close>

definition symlink_storage :: "memfs StorageService" where
  "symlink_storage =
     (mem_storage example_root)\<lparr> realpath := (\<lambda>fs parts.
        let p = normpath parts
        in if take 4 p = example_root @ [''00_inbox'', ''out''] then [''etc''] @ drop 4 p
           else p) \<rparr>"

section \<open>Extraction handler (\<open>worker/handlers/extract_text.py\<close>)\<close>

text \<open>
  What the handler uses beside the storage service: the UTF-8 decoder of text-mode
  \<open>open\<close> (\<open>None\<close> for \<open>UnicodeDecodeError\<close>) and the PDF reader (\<open>pdf_page_texts\<close>
  gives the text of each page, \<open>None\<close> when \<open>pypdf\<close> raises anything).
\<close>

record 'fs ExtractTextHandler =
  storage :: "'fs StorageService"
  utf8_decode :: "bytes \<Rightarrow> string option"
  pdf_page_texts :: "'fs \<Rightarrow> path \<Rightarrow> string list option"

text \<open>Latin-1 gives every byte the code point of its value.\<close>

definition latin1_decode :: "bytes \<Rightarrow> string" where
  "latin1_decode bs = map (\<lambda>b. char_of (unat b)) bs"

text \<open>Text mode turns \<open>\r\n\<close> and a lone \<open>\r\<close> into \<open>\n\<close>.\<close>

fun translate_newlines :: "string \<Rightarrow> string" where
  "translate_newlines [] = []"
| "translate_newlines [c] = (if c = CHR 0x0D then [CHR 0x0A] else [c])"
| "translate_newlines (c # d # cs) =
     (if c = CHR 0x0D \<and> d = CHR 0x0A then CHR 0x0A # translate_newlines cs
      else if c = CHR 0x0D then CHR 0x0A # translate_newlines (d # cs)
      else c # translate_newlines (d # cs))"

definition extract_from_pdf :: "'fs ExtractTextHandler \<Rightarrow> 'fs \<Rightarrow> path \<Rightarrow> error + string \<times> nat" where
  "extract_from_pdf H fs file_path =
     (case pdf_page_texts H fs file_path of
        None \<Rightarrow> Inl PdfExtractionFailed
      | Some pages \<Rightarrow>
          Inr (join_paragraphs (filter (\<lambda>t. t \<noteq> []) pages), length pages))"

text \<open>
  \<open>extract_from_text\<close>: the file is opened and read as UTF-8; on \<open>UnicodeDecodeError\<close>
  it is opened and read again as Latin-1. An error of \<open>open\<close> itself is not caught.
\<close>

definition extract_from_text :: "'fs ExtractTextHandler \<Rightarrow> 'fs \<Rightarrow> path \<Rightarrow> error + string \<times> nat" where
  "extract_from_text H fs file_path =
     (case read_bytes (storage H) fs file_path of
        Inl e \<Rightarrow> Inl e
      | Inr content \<Rightarrow>
          (case utf8_decode H content of
             Some t \<Rightarrow> Inr (translate_newlines t, 1)
           | None \<Rightarrow>
               (case read_bytes (storage H) fs file_path of
                  Inl e \<Rightarrow> Inl e
                | Inr content2 \<Rightarrow> Inr (translate_newlines (latin1_decode content2), 1))))"

text \<open>\<open>Path.suffix\<close>: the last component from its last dot, unless the dot is first or last.\<close>

fun rfind_dot :: "string \<Rightarrow> nat option" where
  "rfind_dot [] = None"
| "rfind_dot (c # cs) =
     (case rfind_dot cs of
        Some i \<Rightarrow> Some (Suc i)
      | None \<Rightarrow> if c = CHR ''.'' then Some 0 else None)"

definition suffix :: "path \<Rightarrow> string" where
  "suffix p =
     (let name = path_name p
      in case rfind_dot name of
           None \<Rightarrow> []
         | Some i \<Rightarrow> if 0 < i \<and> i < length name - 1 then drop i name else [])"

record extract_result =
  extracted_text_length :: nat
  res_page_count :: nat
  char_count :: nat

text \<open>
  \<open>ExtractTextHandler.execute\<close>. The handler reads files and writes the document row;
  it returns its result and the store after the call.
\<close>

definition ExtractTextHandler_execute :: "'fs ExtractTextHandler \<Rightarrow> 'fs \<Rightarrow> database \<Rightarrow> payload
    \<Rightarrow> (error + extract_result) \<times> database" where
  "ExtractTextHandler_execute H fs db pl =
     (case p_file_path pl of
        None \<Rightarrow> (Inl (KeyError ''file_path''), db)
      | Some file_relpath \<Rightarrow>
          (case safe_join (storage H) fs file_relpath of
             Inl e \<Rightarrow> (Inl e, db)
           | Inr file_path \<Rightarrow>
               (case (case p_mime_type pl of None \<Rightarrow> Some [] | Some m \<Rightarrow> m) of
                  None \<Rightarrow> (Inl AttributeError, db)
                | Some mime \<Rightarrow>
                    (case (if str_in ''pdf'' (lower mime) \<or> lower (suffix file_path) = ''.pdf''
                           then extract_from_pdf H fs file_path
                           else if str_in ''text'' (lower mime)
                                   \<or> suffix file_path \<in> set [''.txt'', ''.md'', ''.log'']
                           then extract_from_text H fs file_path
                           else (case extract_from_text H fs file_path of
                                   Inl e \<Rightarrow> Inl UnsupportedFileFormat
                                 | Inr r \<Rightarrow> Inr r)) of
                       Inl e \<Rightarrow> (Inl e, db)
                     | Inr (text_out, pages) \<Rightarrow>
                         (case get_document db (p_document_id pl) of
                            None \<Rightarrow> (Inl (DocumentNotFound (p_document_id pl)), db)
                          | Some document \<Rightarrow>
                              (Inr \<lparr> extracted_text_length = length text_out,
                                      res_page_count = pages,
                                      char_count = length text_out \<rparr>,
                               commit_document db
                                 (document\<lparr> extracted_text := Some text_out,
                                            page_count := Some (int pages),
                                            status := ANALYZING \<rparr>)))))))"

subsection \<open>Example data\<close>

text \<open>
  A UTF-8 decoder for the examples: it accepts the one-byte and two-byte forms of the
  code points 0..255 and rejects every other byte sequence.
\<close>

fun utf8_decode_latin :: "bytes \<Rightarrow> string option" where
  "utf8_decode_latin [] = Some []"
| "utf8_decode_latin [b] = (if unat b < 128 then Some [char_of (unat b)] else None)"
| "utf8_decode_latin (a # b # bs) =
     (if unat a < 128
      then map_option (\<lambda>t. char_of (unat a) # t) (utf8_decode_latin (b # bs))
      else if (unat a = 194 \<or> unat a = 195) \<and> 128 \<le> unat b \<and> unat b < 192
      then map_option (\<lambda>t. char_of ((unat a - 192) * 64 + (unat b - 128)) # t)
             (utf8_decode_latin bs)
      else None)"

definition example_handler :: "memfs ExtractTextHandler" where
  "example_handler = \<lparr> storage = mem_storage example_root,
     utf8_decode = utf8_decode_latin, pdf_page_texts = (\<lambda>fs p. None) \<rparr>"

text \<open>A file of unknown type whose bytes are not UTF-8: \<open>caf\<close>, byte 0xE9, CR, LF.\<close>

definition binary_fs :: memfs where
  "binary_fs = example_fs @
     [([''srv'', ''storage'', ''01_ingested''], Dir),
      ([''srv'', ''storage'', ''01_ingested'', ''9f2c_notes.bin''],
         File [99, 97, 102, 233, 13, 10])]"

definition binary_payload :: payload where
  "binary_payload = \<lparr> p_document_id = 1, p_file_path = Some ''01_ingested/9f2c_notes.bin'',
     p_mime_type = Some (Some ''application/octet-stream''), p_depends_on = None \<rparr>"

definition missing_payload :: payload where
  "missing_payload = \<lparr> p_document_id = 1, p_file_path = Some ''01_ingested/9f2c_gone.bin'',
     p_mime_type = Some (Some ''application/octet-stream''), p_depends_on = None \<rparr>"

section \<open>Embedding handler (\<open>worker/handlers/embed_chunks.py\<close>)\<close>










subsection \<open>Example data\<close>




section \<open>Ingest (\<open>api/app/api/docs.py\<close>, \<open>ingest_document\<close>)\<close>

record IngestRequest =
  inbox_path :: string
  skip_duplicate_check :: bool

record IngestResponse =
  ir_document_id :: "int option"
  ir_status :: string
  ir_is_duplicate :: bool
  ir_duplicate_of :: "int option"
  ir_sha256 :: string

text \<open>
  What the environment supplies to one call: the primary key the database gives the
  new row, and the uuid and clock reading of each of the four \<open>enqueue\<close> calls.
\<close>

record ingest_env =
  new_document_id :: int
  job_uuid :: "nat \<Rightarrow> string"
  job_time :: "nat \<Rightarrow> string"

text \<open>
  \<open>db.add(document); db.commit()\<close>. \<open>file_sha256\<close> is declared \<open>unique=True\<close> and \<open>id\<close>
  is the primary key: a row that repeats either value is refused with an
  \<open>IntegrityError\<close>.
\<close>

definition add_document :: "database \<Rightarrow> Document \<Rightarrow> error + database" where
  "add_document db d =
     (if file_sha256 d \<in> set (map file_sha256 (documents db))
         \<or> doc_id d \<in> set (map doc_id (documents db))
      then Inl IntegrityError
      else Inr (db\<lparr>documents := documents db @ [d]\<rparr>))"

text \<open>
  The two \<open>except\<close> clauses of the endpoint: a \<open>StorageError\<close> (\<open>PathTraversalError\<close> is
  one) becomes the response 404, any other exception the response 500. The
  \<open>HTTPException\<close> raised for a path outside the inbox is raised inside the \<open>try\<close> and
  is an \<open>Exception\<close>, so it takes the second clause.
\<close>

definition to_http :: "error \<Rightarrow> error" where
  "to_http e = (case e of
                  StorageError msg \<Rightarrow> HTTPException 404
                | PathTraversalError \<Rightarrow> HTTPException 404
                | other \<Rightarrow> HTTPException 500)"

text \<open>
  The four \<open>enqueue\<close> calls of step 7. An exception of a call ends the sequence; the
  jobs enqueued before it stay in the queue.
\<close>

definition ingest_jobs :: "ingest_env \<Rightarrow> queue \<Rightarrow> int \<Rightarrow> string \<Rightarrow> string option
    \<Rightarrow> error option \<times> queue" where
  "ingest_jobs env q document_id ingested_path mime =
     (case enqueue (job_uuid env 0) (job_time env 0) q ''extract_text''
             \<lparr> p_document_id = document_id, p_file_path = Some ingested_path,
               p_mime_type = Some mime, p_depends_on = None \<rparr> 50 (Some document_id) of
        Inl e \<Rightarrow> (Some e, q)
      | Inr (extract_job_id, q1) \<Rightarrow>
     (case enqueue (job_uuid env 1) (job_time env 1) q1 ''chunk_text''
             \<lparr> p_document_id = document_id, p_file_path = None,
               p_mime_type = None, p_depends_on = Some extract_job_id \<rparr> 100 (Some document_id) of
        Inl e \<Rightarrow> (Some e, q1)
      | Inr (chunk_job_id, q2) \<Rightarrow>
     (case enqueue (job_uuid env 2) (job_time env 2) q2 ''embed_chunks''
             \<lparr> p_document_id = document_id, p_file_path = None,
               p_mime_type = None, p_depends_on = Some chunk_job_id \<rparr> 150 (Some document_id) of
        Inl e \<Rightarrow> (Some e, q2)
      | Inr (embed_job_id, q3) \<Rightarrow>
     (case enqueue (job_uuid env 3) (job_time env 3) q3 ''classify_document''
             \<lparr> p_document_id = document_id, p_file_path = None,
               p_mime_type = None, p_depends_on = Some embed_job_id \<rparr> 200 (Some document_id) of
        Inl e \<Rightarrow> (Some e, q3)
      | Inr (classify_job_id, q4) \<Rightarrow> (None, q4)))))"

text \<open>Steps 3 to 7 of the endpoint: the path taken when no duplicate is reported.\<close>

definition ingest_new :: "'fs StorageService \<Rightarrow> ingest_env \<Rightarrow> 'fs \<Rightarrow> database \<Rightarrow> queue
    \<Rightarrow> IngestRequest \<Rightarrow> string \<Rightarrow> (error + IngestResponse) \<times> 'fs \<times> database \<times> queue" where
  "ingest_new S env fs db q request_body sha256 =
     (case stat S fs (inbox_path request_body) of
        (Inl e, fs1) \<Rightarrow> (Inl (to_http e), fs1, db, q)
      | (Inr file_stat, fs1) \<Rightarrow>
          (let original_filename = md_name file_stat;
               ingested_path = ''01_ingested/'' @ sha256 @ ''_'' @ original_filename
           in case copy_file S fs1 (inbox_path request_body) ingested_path False of
                (Inl e, fs2) \<Rightarrow> (Inl (to_http e), fs2, db, q)
              | (Inr copied, fs2) \<Rightarrow>
                  (let document = \<lparr> doc_id = new_document_id env, file_sha256 = sha256,
                         original_filename = original_filename,
                         mime_type = md_mime_type file_stat,
                         file_size_bytes = md_size file_stat,
                         inbox_relpath = Some (inbox_path request_body),
                         ingested_relpath = Some ingested_path,
                         status = INGESTED, extracted_text = None, page_count = None,
                         category = None, suggested_filename = None,
                         suggested_target_path = None, classification_confidence = None,
                         llm_trace = None, analyzed_at = None \<rparr>
                   in case add_document db document of
                        Inl e \<Rightarrow> (Inl (to_http e), fs2, db, q)
                      | Inr db1 \<Rightarrow>
                          (case ingest_jobs env q (doc_id document) ingested_path
                                  (md_mime_type file_stat) of
                             (Some e, q1) \<Rightarrow> (Inl (to_http e), fs2, db1, q1)
                           | (None, q4) \<Rightarrow>
                               (Inr \<lparr> ir_document_id = Some (doc_id document),
                                       ir_status = ''INGESTED'', ir_is_duplicate = False,
                                       ir_duplicate_of = None, ir_sha256 = sha256 \<rparr>,
                                fs2, db1, q4)))))"

text \<open>
  \<open>ingest_document\<close> returns the response (or the \<open>HTTPException\<close>), the file system,
  the store and the queue after the call. The audit event goes to the table
  \<open>audit_events\<close>, which is not part of the store modelled here, and \<open>AuditLogger.log\<close>
  catches its own exceptions.
\<close>

definition ingest_document :: "'fs StorageService \<Rightarrow> ingest_env \<Rightarrow> 'fs \<Rightarrow> database \<Rightarrow> queue
    \<Rightarrow> IngestRequest \<Rightarrow> (error + IngestResponse) \<times> 'fs \<times> database \<times> queue" where
  "ingest_document S env fs db q request_body =
     (if take 9 (inbox_path request_body) \<noteq> ''00_inbox/''
      then (Inl (to_http (HTTPException 403)), fs, db, q)
      else
        (case compute_sha256 S fs (inbox_path request_body) of
           (Inl e, fs0) \<Rightarrow> (Inl (to_http e), fs0, db, q)
         | (Inr sha256, fs0) \<Rightarrow>
             (case find (\<lambda>d. file_sha256 d = sha256) (documents db) of
                Some existing_doc \<Rightarrow>
                  if \<not> skip_duplicate_check request_body
                  then (Inr \<lparr> ir_document_id = Some (doc_id existing_doc),
                               ir_status = ''DUPLICATE'', ir_is_duplicate = True,
                               ir_duplicate_of = Some (doc_id existing_doc),
                               ir_sha256 = sha256 \<rparr>, fs0, db, q)
                  else ingest_new S env fs0 db q request_body sha256
              | None \<Rightarrow> ingest_new S env fs0 db q request_body sha256)))"

subsection \<open>Example data\<close>

definition example_ingest_env :: ingest_env where
  "example_ingest_env = \<lparr> new_document_id = 2,
     job_uuid = (\<lambda>k. [''7c9e6679-7425-40de-944b-e07fc1f90ae7'',
                       ''c56a4180-65aa-42ec-a945-5fd21dec0538'',
                       ''1b4e28ba-2fa1-41d2-883f-0016d3cca427'',
                       ''0f8fad5b-d9cb-469f-a165-70867728950e''] ! (k mod 4)),
     job_time = (\<lambda>k. ''2024-03-01T10:15:00'') \<rparr>"

text \<open>
  The inbox holds \<open>scan.pdf\<close> once more under another name; its hash is the one of
  document 1 (the example storage gives every content the digest \<open>9f2c\<close>).
\<close>

definition reingest_fs :: memfs where
  "reingest_fs = example_fs @
     [([''srv'', ''storage'', ''00_inbox'', ''copy.pdf''], File [37, 80, 68, 70])]"

definition reingest_request :: IngestRequest where
  "reingest_request = \<lparr> inbox_path = ''00_inbox/copy.pdf'', skip_duplicate_check = False \<rparr>"

section \<open>Rules engine: properties\<close>

lemma apply_actions_doc_id: "doc_id (fst (apply_actions d a)) = doc_id d"
  by (simp add: apply_actions_def Let_def split: option.splits)

lemma first_match_decompose:
  assumes "\<forall>p \<in> set pre. evaluate_rule rx document p = Inr False"
      and "evaluate_rule rx document r = Inr True"
  shows "first_match rx document (pre @ r # post) =
           Inr (Some (\<lparr> rr_rule_id = rule_id r, rr_rule_name = rule_name r,
                          rr_priority = priority r,
                          rr_changes = snd (apply_actions document (rule_actions r)) \<rparr>,
                      fst (apply_actions document (rule_actions r))))"
  using assms by (induction pre) (auto simp: case_prod_unfold Let_def)



text \<open>
  The rules that are evaluated are the active ones, in ascending order of their
  priority number. When \<open>r\<close> is the first of them that matches the document (every rule
  \<open>pre\<close> before it evaluates to no match), the engine returns \<open>r\<close> with its actions
  applied, whatever the rules \<open>post\<close> after it are: they are not evaluated, so one that
  would raise does not.
\<close>

lemma first_active_match_wins:
  assumes "get_active_rules rs = pre @ r # post"
      and "\<forall>p \<in> set pre. evaluate_rule rx document p = Inr False"
      and "evaluate_rule rx document r = Inr True"
  shows "set (get_active_rules rs) = {x \<in> set rs. is_active x}"
    and "sorted (map priority (get_active_rules rs))"
    and "RulesEngine_classify_document rx rs document =
           Inr (Some (\<lparr> rr_rule_id = rule_id r, rr_rule_name = rule_name r,
                          rr_priority = priority r,
                          rr_changes = snd (apply_actions document (rule_actions r)) \<rparr>,
                      fst (apply_actions document (rule_actions r))))"
proof -
  show "set (get_active_rules rs) = {x \<in> set rs. is_active x}"
    by (auto simp: get_active_rules_def)
  show "sorted (map priority (get_active_rules rs))"
    by (simp add: get_active_rules_def)
  show "RulesEngine_classify_document rx rs document =
           Inr (Some (\<lparr> rr_rule_id = rule_id r, rr_rule_name = rule_name r,
                          rr_priority = priority r,
                          rr_changes = snd (apply_actions document (rule_actions r)) \<rparr>,
                      fst (apply_actions document (rule_actions r))))"
    unfolding RulesEngine_classify_document_def assms(1)
    by (rule first_match_decompose[OF assms(2,3)])
qed

text \<open>What applying a rule's actions does to the three fields it can set.\<close>

lemma apply_actions_fields:
  "category (fst (apply_actions d a))
     = (case act_category a of None \<Rightarrow> category d | Some v \<Rightarrow> Some v)"
  "suggested_target_path (fst (apply_actions d a))
     = (case act_target_path a of None \<Rightarrow> suggested_target_path d | Some v \<Rightarrow> Some v)"
  "suggested_filename (fst (apply_actions d a))
     = (case act_suggested_filename a of None \<Rightarrow> suggested_filename d | Some v \<Rightarrow> Some v)"
  by (simp_all add: apply_actions_def Let_def split: option.splits)

text \<open>
  The handler never commits: whatever the branch, it ends with an exception and the
  store is as it was. When the document exists and the rules engine does not raise,
  the exception is the \<open>AttributeError\<close> of \<open>db.func\<close>.
\<close>

lemma classify_handler_never_commits:
  "\<exists>e. ClassifyDocumentHandler_execute rx llm db i = (Inl e, db)"
  by (simp add: ClassifyDocumentHandler_execute_def session_func_now_def
        split: sum.splits prod.splits)

lemma classify_handler_attribute_error:
  assumes "classify_in_session rx llm db i = Inr r"
  shows "ClassifyDocumentHandler_execute rx llm db i = (Inl AttributeError, db)"
  using assms
  by (simp add: ClassifyDocumentHandler_execute_def session_func_now_def split: prod.splits)

text \<open>
  Claim C6. On the example store the active rules in ascending priority are
  \<open>rule_contract\<close> (5), \<open>rule_pdf\<close> (7) and \<open>rule_broken\<close> (9). The first does not match
  document 1, the second does: the engine returns it with the category \<open>Invoice\<close>
  applied, and \<open>rule_broken\<close>, which would raise, and the inactive \<open>rule_disabled\<close> of
  priority 1 are not evaluated. The handler sets confidence 1.0 and status ANALYZED on
  the document object and then raises \<open>AttributeError\<close> at the line that asks for the
  time, before \<open>db.commit()\<close>: the stored document keeps no confidence and the status
  ANALYZING. So the rules are evaluated as the claim says, and the document does not
  receive confidence 1.0 and status ANALYZED.
\<close>

theorem C6_rule_match_not_committed:
  "get_active_rules (rules example_database) = [rule_contract, rule_pdf, rule_broken]
   \<and> evaluate_rule rejecting_regex example_document rule_contract = Inr False
   \<and> evaluate_rule rejecting_regex example_document rule_pdf = Inr True
   \<and> evaluate_rule rejecting_regex example_document rule_broken = Inl re_error
   \<and> RulesEngine_classify_document rejecting_regex (rules example_database) example_document
       = Inr (Some (\<lparr> rr_rule_id = 3, rr_rule_name = ''pdf'', rr_priority = 7,
                      rr_changes = \<lparr> ch_category = Some ''Invoice'', ch_target_path = None,
                                     ch_suggested_filename = None, ch_tags = None \<rparr> \<rparr>,
                    example_document\<lparr>category := Some ''Invoice''\<rparr>))
   \<and> classify_in_session rejecting_regex unavailable_llm example_database 1
       = Inr (example_document\<lparr> category := Some ''Invoice'',
                 classification_confidence := Some 1,
                 llm_trace := Some (TraceRules 3 ''pdf''
                    \<lparr> ch_category = Some ''Invoice'', ch_target_path = None,
                      ch_suggested_filename = None, ch_tags = None \<rparr>),
                 status := ANALYZED \<rparr>,
              \<lparr> res_method = ''rules'', res_confidence = 1, res_category = Some ''Invoice'',
                res_rule_name = Some ''pdf'' \<rparr>)
   \<and> ClassifyDocumentHandler_execute rejecting_regex unavailable_llm example_database 1
       = (Inl AttributeError, example_database)
   \<and> get_document example_database 1 = Some example_document
   \<and> classification_confidence example_document = None
   \<and> status example_document = ANALYZING"
  by code_simp

text \<open>
  Claim C7. A document whose recorded size is 0 bytes fails a maximum-size condition of
  100 bytes (and a minimum-size condition of 0 bytes), although 0 lies within the bound:
  \<open>not document.file_size_bytes\<close> is true for the size 0 as it is for no size.
\<close>

theorem C7_zero_size_fails_inclusive_bounds:
  "file_size_bytes (example_document\<lparr>file_size_bytes := Some 0\<rparr>) = Some 0
   \<and> (0::int) \<le> 100
   \<and> evaluate_condition rejecting_regex (example_document\<lparr>file_size_bytes := Some 0\<rparr>)
         (single_condition (FileSizeMax 100)) = Inr False
   \<and> evaluate_condition rejecting_regex (example_document\<lparr>file_size_bytes := Some 0\<rparr>)
         (single_condition (FileSizeMin 0)) = Inr False"
  by (simp add: evaluate_condition_def empty_condition_def falsy_int_def)

text \<open>For a recorded size other than 0 the two bounds are inclusive.\<close>

lemma file_size_bounds_nonzero:
  assumes "file_size_bytes d = Some n" and "n \<noteq> 0"
  shows "evaluate_condition rx d (single_condition (FileSizeMin m)) = Inr (m \<le> n)"
    and "evaluate_condition rx d (single_condition (FileSizeMax m)) = Inr (n \<le> m)"
  using assms by (auto simp: evaluate_condition_def empty_condition_def falsy_int_def)

text \<open>A condition on a field the document lacks is a non-match, not an error.\<close>

lemma absent_field_is_non_match:
  shows "mime_type d = None \<Longrightarrow>
           evaluate_condition rx d (single_condition (MimeType m)) = Inr False"
    and "mime_type d = None \<Longrightarrow>
           evaluate_condition rx d (single_condition (MimeTypeContains m)) = Inr False"
    and "file_size_bytes d = None \<Longrightarrow>
           evaluate_condition rx d (single_condition (FileSizeMin k)) = Inr False"
    and "file_size_bytes d = None \<Longrightarrow>
           evaluate_condition rx d (single_condition (FileSizeMax k)) = Inr False"
    and "extracted_text d = None \<Longrightarrow>
           evaluate_condition rx d (single_condition (TextContains s)) = Inr False"
  by (simp_all add: evaluate_condition_def empty_condition_def falsy_int_def falsy_str_def)

section \<open>Classification handler: the fallback branch\<close>

text \<open>
  Claim C5. Document 1 has no category and no confidence, no rule is in the table and
  the model service is unavailable. The third branch sets the status NEEDS_REVIEW on
  the document object and nothing else: neither a category nor a confidence is
  assigned, and 0.0 stands only in the dict the branch would return. The handler then
  raises \<open>AttributeError\<close> at the line that asks for the time, before \<open>db.commit()\<close>: it
  returns no result, and the stored document has no category, no confidence and the
  status ANALYZING as before. The document gets neither the category \<open>Uncategorized\<close>
  nor the confidence 0.0 nor the status NEEDS_REVIEW.
\<close>

theorem C5_fallback_not_applied:
  "RulesEngine_classify_document rejecting_regex [] example_document = Inr None
   \<and> LLMClassifier_classify unavailable_llm example_document = None
   \<and> classify_in_session rejecting_regex unavailable_llm (example_database\<lparr>rules := []\<rparr>) 1
       = Inr (example_document\<lparr>status := NEEDS_REVIEW\<rparr>,
              \<lparr> res_method = ''none'', res_confidence = 0, res_category = None,
                res_rule_name = None \<rparr>)
   \<and> category (example_document\<lparr>status := NEEDS_REVIEW\<rparr>) = None
   \<and> classification_confidence (example_document\<lparr>status := NEEDS_REVIEW\<rparr>) = None
   \<and> ClassifyDocumentHandler_execute rejecting_regex unavailable_llm
         (example_database\<lparr>rules := []\<rparr>) 1
       = (Inl AttributeError, example_database\<lparr>rules := []\<rparr>)
   \<and> get_document (example_database\<lparr>rules := []\<rparr>) 1 = Some example_document
   \<and> category example_document = None
   \<and> classification_confidence example_document = None
   \<and> status example_document = ANALYZING"
  by code_simp

text \<open>
  The same holds for every document: in the third branch only the status changes on
  the document object, and a model service that was unavailable at construction, times
  out or answers with another status than 200 gives no result.
\<close>

lemma fallback_changes_status_only:
  assumes "get_document db i = Some document"
      and "RulesEngine_classify_document rx (rules db) document = Inr None"
      and "LLMClassifier_classify llm document = None"
  shows "classify_in_session rx llm db i =
           Inr (document\<lparr>status := NEEDS_REVIEW\<rparr>,
                \<lparr> res_method = ''none'', res_confidence = 0, res_category = None,
                  res_rule_name = None \<rparr>)"
    and "ClassifyDocumentHandler_execute rx llm db i = (Inl AttributeError, db)"
  using assms
  by (simp_all add: classify_in_session_def ClassifyDocumentHandler_execute_def
        session_func_now_def)

lemma classify_no_result:
  shows "\<not> llm_available llm \<Longrightarrow> LLMClassifier_classify llm document = None"
    and "ollama_post llm document = TimeoutException \<Longrightarrow>
           LLMClassifier_classify llm document = None"
    and "ollama_post llm document = OtherException \<Longrightarrow>
           LLMClassifier_classify llm document = None"
    and "ollama_post llm document = Response code body \<Longrightarrow> code \<noteq> 200 \<Longrightarrow>
           LLMClassifier_classify llm document = None"
  by (simp_all add: LLMClassifier_classify_def)

section \<open>Job queue: properties\<close>

lemma zadd_sorted: "sorted (map zkey z) \<Longrightarrow> sorted (map zkey (zadd z j s))"
  by (simp add: zadd_def sorted_insort_key sorted_filter)

lemma set_zadd:
  "set (zadd z j s) = insert (j, s) {e \<in> set z. json_dumps (fst e) \<noteq> json_dumps j}"
  by (auto simp: zadd_def set_insort_key)

text \<open>A priority of magnitude below \<open>2^53\<close> is its own score.\<close>

lemma redis_score_small: "\<bar>p\<bar> < 2 ^ 53 \<Longrightarrow> redis_score p = Some p"
  by (simp add: redis_score_def)

lemma jobs_zset_enqueue_call:
  assumes "\<bar>e_priority c\<bar> < 2 ^ 53"
  shows "jobs_zset (enqueue_call q c) = zadd (jobs_zset q) (job_of_call c) (e_priority c)"
  by (simp add: enqueue_call_def enqueue_def job_of_call_def Let_def
        redis_score_small[OF assms])

lemma enqueue_all_snoc: "enqueue_all q (cs @ [c]) = enqueue_call (enqueue_all q cs) c"
  by (simp add: enqueue_all_def)

lemma zkey_call: "zkey (job_of_call c, e_priority c) = (e_priority c, json_dumps (job_of_call c))"
  by (simp add: zkey_def)

lemma job_priority_of_call: "job_priority (job_of_call c) = e_priority c"
  by (simp add: job_of_call_def)

lemma distinct_map_insort_key:
  "distinct (map g (insort_key f x xs)) = (g x \<notin> g ` set xs \<and> distinct (map g xs))"
  by (induction xs) (auto simp: set_insort_key)

text \<open>The sorted set after a sequence of calls whose serialized jobs are all different.\<close>

lemma enqueue_all_zset:
  assumes "distinct (map (\<lambda>c. json_dumps (job_of_call c)) cs)"
      and "\<forall>c \<in> set cs. \<bar>e_priority c\<bar> < 2 ^ 53"
  shows "sorted (map zkey (jobs_zset (enqueue_all empty_queue cs)))
       \<and> distinct (map (\<lambda>e. json_dumps (fst e)) (jobs_zset (enqueue_all empty_queue cs)))
       \<and> set (jobs_zset (enqueue_all empty_queue cs))
           = (\<lambda>c. (job_of_call c, e_priority c)) ` set cs"
  using assms
proof (induction cs rule: rev_induct)
  case Nil
  show ?case by (simp add: enqueue_all_def empty_queue_def)
next
  case (snoc c cs)
  let ?z = "jobs_zset (enqueue_all empty_queue cs)"
  from snoc.prems have d: "distinct (map (\<lambda>c. json_dumps (job_of_call c)) cs)"
    by simp
  from snoc.prems have "json_dumps (job_of_call c) \<notin> (\<lambda>c. json_dumps (job_of_call c)) ` set cs"
    by simp
  then have fresh: "\<forall>x \<in> set cs. json_dumps (job_of_call x) \<noteq> json_dumps (job_of_call c)"
    by (metis image_eqI)
  from snoc.prems have small: "\<forall>c \<in> set cs. \<bar>e_priority c\<bar> < 2 ^ 53"
    and small_c: "\<bar>e_priority c\<bar> < 2 ^ 53"
    by simp_all
  from snoc.IH[OF d small] have s: "sorted (map zkey ?z)"
    and dz: "distinct (map (\<lambda>e. json_dumps (fst e)) ?z)"
    and st: "set ?z = (\<lambda>c. (job_of_call c, e_priority c)) ` set cs"
    by auto
  have keep: "filter (\<lambda>e. json_dumps (fst e) \<noteq> json_dumps (job_of_call c)) ?z = ?z"
    using fresh st by (auto simp: filter_id_conv)
  have z': "jobs_zset (enqueue_all empty_queue (cs @ [c]))
              = insort_key zkey (job_of_call c, e_priority c) ?z"
    by (simp add: enqueue_all_snoc jobs_zset_enqueue_call[OF small_c] zadd_def keep)
  have "sorted (map zkey (insort_key zkey (job_of_call c, e_priority c) ?z))"
    using s by (simp add: sorted_insort_key)
  moreover have "distinct (map (\<lambda>e. json_dumps (fst e))
                    (insort_key zkey (job_of_call c, e_priority c) ?z))"
    using fresh st dz by (auto simp: distinct_map_insort_key)
  moreover have "set (insort_key zkey (job_of_call c, e_priority c) ?z)
      = (\<lambda>c. (job_of_call c, e_priority c)) ` set (cs @ [c])"
    using st by (auto simp: set_insort_key)
  ultimately show ?case by (simp only: z') 
qed

lemma dequeue_n_take: "fst (dequeue_n n q) = take n (map fst (jobs_zset q))"
proof (induction n arbitrary: q)
  case 0
  show ?case by simp
next
  case (Suc n)
  show ?case
  proof (cases "jobs_zset q")
    case Nil
    then show ?thesis by (simp add: dequeue_def bzpopmin_def)
  next
    case (Cons e rest)
    obtain j s where e: "e = (j, s)" by (cases e)
    let ?q' = "q\<lparr> jobs_zset := rest,
              job_hashes := (job_hashes q)(job_id j \<mapsto>
                (hash_of q (job_id j))\<lparr>h_status := Some ''RUNNING''\<rparr>) \<rparr>"
    have dq: "dequeue q = (Some j, ?q')"
      by (simp add: dequeue_def bzpopmin_def Cons e)
    have "fst (dequeue_n n ?q') = take n (map fst rest)"
      using Suc.IH[of ?q'] by simp
    then show ?thesis
      by (simp add: dq Cons e case_prod_unfold Let_def)
  qed
qed

lemma sorted_pair_fst:
  "sorted (map (\<lambda>x. (f x, g x)) xs) \<Longrightarrow> sorted (map f xs)"
  by (induction xs) (auto simp: less_eq_prod_def)

lemma length_enqueue_all_zset:
  assumes "distinct (map (\<lambda>c. json_dumps (job_of_call c)) cs)"
      and "\<forall>c \<in> set cs. \<bar>e_priority c\<bar> < 2 ^ 53"
  shows "length (jobs_zset (enqueue_all empty_queue cs)) = length cs"
proof -
  let ?z = "jobs_zset (enqueue_all empty_queue cs)"
  from enqueue_all_zset[OF assms]
  have dz: "distinct (map (\<lambda>e. json_dumps (fst e)) ?z)"
    and st: "set ?z = (\<lambda>c. (job_of_call c, e_priority c)) ` set cs" by auto
  have "distinct ?z" using dz by (simp add: distinct_map)
  then have "length ?z = card (set ?z)" by (simp add: distinct_card)
  also have "\<dots> = card ((\<lambda>c. (job_of_call c, e_priority c)) ` set cs)" by (simp only: st)
  also have "\<dots> = card (set cs)"
  proof (rule card_image)
    have "inj_on (\<lambda>c. json_dumps (job_of_call c)) (set cs)"
      using assms(1) by (simp add: distinct_map)
    then show "inj_on (\<lambda>c. (job_of_call c, e_priority c)) (set cs)"
      by (auto simp: inj_on_def)
  qed
  also have "\<dots> = length cs"
    using assms(1) by (simp add: distinct_map distinct_card)
  finally show ?thesis .
qed

text \<open>
  After a sequence of \<open>enqueue\<close> calls on an empty queue, with priorities of magnitude
  below \<open>2^53\<close> and each call's serialized job different from the others (as the fresh
  uuid makes it), repeated \<open>dequeue\<close> returns the enqueued jobs sorted by priority and,
  among equal priorities, by their serialized text \<open>json_dumps\<close>, which starts with the
  job id. So within that range the priorities come in ascending order.
\<close>

lemma dequeue_by_priority_then_serialization:
  assumes "distinct (map (\<lambda>c. json_dumps (job_of_call c)) cs)"
      and "\<forall>c \<in> set cs. \<bar>e_priority c\<bar> < 2 ^ 53"
  shows "fst (dequeue_n (length cs) (enqueue_all empty_queue cs))
           = sort_key (\<lambda>j. (job_priority j, json_dumps j)) (map job_of_call cs)
       \<and> sorted (map job_priority (fst (dequeue_n (length cs) (enqueue_all empty_queue cs))))"
proof -
  let ?z = "jobs_zset (enqueue_all empty_queue cs)"
  let ?k = "\<lambda>j. (job_priority j, json_dumps j)"
  let ?xs = "map job_of_call cs"
  let ?js = "fst (dequeue_n (length cs) (enqueue_all empty_queue cs))"
  from enqueue_all_zset[OF assms]
  have s: "sorted (map zkey ?z)"
    and dz: "distinct (map (\<lambda>e. json_dumps (fst e)) ?z)"
    and st: "set ?z = (\<lambda>c. (job_of_call c, e_priority c)) ` set cs" by auto
  have js: "?js = map fst ?z"
    by (simp add: dequeue_n_take length_enqueue_all_zset[OF assms, symmetric])
  have set_js: "set ?js = set ?xs"
    by (simp add: js st image_image)
  have dd: "distinct (map json_dumps ?xs)" using assms(1) by (simp add: comp_def)
  have dxs: "distinct ?xs"
    using dd distinct_map[of json_dumps ?xs] by blast
  have inj: "inj_on json_dumps (set ?xs)"
    using dd distinct_map[of json_dumps ?xs] by blast
  have injk: "inj_on ?k (set ?xs)"
    using inj by (auto simp: inj_on_def)
  have "distinct (map json_dumps ?js)" using dz by (simp add: js comp_def)
  then have djs: "distinct ?js"
    using distinct_map[of json_dumps ?js] by blast
  have keys: "map ?k ?js = map zkey ?z"
    unfolding js using st by (auto simp: zkey_def job_priority_of_call)
  have 1: "sorted (map ?k ?js)" using s by (simp only: keys)
  have 2: "distinct (map ?k ?js)"
    using djs injk set_js by (simp add: distinct_map)
  have 3: "sorted (map ?k (sort_key ?k ?xs))" by (rule sorted_sort_key)
  have 4: "distinct (map ?k (sort_key ?k ?xs))"
    using dxs injk by (simp add: distinct_map)
  have 5: "set (map ?k ?js) = set (map ?k (sort_key ?k ?xs))"
    using set_js by simp
  have "map ?k ?js = map ?k (sort_key ?k ?xs)"
    by (rule sorted_distinct_set_unique[OF 1 2 3 4 5])
  moreover have "inj_on ?k (set ?js \<union> set (sort_key ?k ?xs))"
    using injk set_js by simp
  ultimately have eq: "?js = sort_key ?k ?xs"
    by (simp add: inj_on_map_eq_map)
  have "sorted (map job_priority ?js)"
    using 1 by (rule sorted_pair_fst)
  with eq show ?thesis by simp
qed

text \<open>
  Beyond that range two different priorities can have one score: \<open>2^53 + 1\<close> is stored
  as \<open>2^53\<close>, like \<open>2^53\<close> itself, and \<open>2^1024\<close> is refused.
\<close>

lemma bit_length_bounds:
  "2 ^ k \<le> n \<Longrightarrow> n < 2 ^ Suc k \<Longrightarrow> bit_length n = Suc k"
proof (induction k arbitrary: n)
  case 0
  then have "n = 1" by simp
  then show ?case by simp
next
  case (Suc k)
  have "2 ^ k \<le> n div 2" using Suc.prems(1) by simp
  moreover have "n div 2 < 2 ^ Suc k" using Suc.prems(2) by simp
  ultimately have "bit_length (n div 2) = Suc k" by (rule Suc.IH)
  moreover have "\<not> n \<le> 0"
  proof -
    have "(0::int) < 2 ^ Suc k" by simp
    with Suc.prems(1) show ?thesis by linarith
  qed
  ultimately show ?case by (subst bit_length.simps) simp
qed

lemma bit_length_54: "(2::int) ^ 53 \<le> n \<Longrightarrow> n < 2 ^ 54 \<Longrightarrow> bit_length n = 54"
  using bit_length_bounds[of 53 n] by simp

lemma redis_score_large:
  "redis_score (2 ^ 53) = Some (2 ^ 53)"
  "redis_score (2 ^ 53 + 1) = Some (2 ^ 53)"
  "redis_score (2 ^ 53 + 3) = Some (2 ^ 53 + 4)"
  "redis_score (- (2 ^ 53) - 1) = Some (- (2 ^ 53))"
  by (simp_all add: redis_score_def Let_def bit_length_54)

lemma redis_score_refused: "redis_score (2 ^ 1024) = None"
  by code_simp

text \<open>
  Claim C2. Two jobs of priority 100 are enqueued, \<open>call_chunk\<close> first and
  \<open>call_chunk_later\<close> second. Repeated \<open>dequeue\<close> returns the second one first: the two
  members have the same score, Redis orders them by their bytes, and the serialized
  job starts with the job id, where the later call's uuid (\<open>1b4e...\<close>) sorts before
  the first one's (\<open>c56a...\<close>). Jobs of equal priority are not returned in insertion
  order.
\<close>

theorem C2_equal_priority_not_insertion_order:
  "e_priority call_chunk = e_priority call_chunk_later
   \<and> fst (dequeue_n 2 (enqueue_all empty_queue [call_chunk, call_chunk_later]))
       = [job_of_call call_chunk_later, job_of_call call_chunk]
   \<and> fst (dequeue_n 2 (enqueue_all empty_queue [call_chunk, call_chunk_later]))
       \<noteq> [job_of_call call_chunk, job_of_call call_chunk_later]"
  by code_simp

text \<open>
  Claim C3. The job that \<open>dequeue\<close> returns is the head of the sorted set, whatever the
  job hashes hold: no status and no \<open>depends_on\<close> entry is read. After an ingest's first
  two calls, the second \<open>dequeue\<close> returns the chunking job while the extraction job
  named in its \<open>depends_on\<close> entry has status RUNNING, not COMPLETED.
\<close>

theorem C3_dequeue_ignores_depends_on:
  "fst (dequeue q) = (case jobs_zset q of [] \<Rightarrow> None | e # rest \<Rightarrow> Some (fst e))
   \<and> (let q2 = enqueue_all empty_queue [call_extract, call_chunk];
           r1 = dequeue q2;
           r2 = dequeue (snd r1)
       in fst r1 = Some (job_of_call call_extract)
          \<and> fst r2 = Some (job_of_call call_chunk)
          \<and> p_depends_on (job_payload (job_of_call call_chunk)) = Some (e_uuid call_extract)
          \<and> h_status (hash_of (snd r2) (e_uuid call_extract)) = Some ''RUNNING''
          \<and> h_status (hash_of (snd r2) (e_uuid call_extract)) \<noteq> Some ''COMPLETED'')"
proof -
  have a: "fst (dequeue q) = (case jobs_zset q of [] \<Rightarrow> None | e # rest \<Rightarrow> Some (fst e))"
    by (simp add: dequeue_def bzpopmin_def split: list.splits prod.splits)
  have b: "(let q2 = enqueue_all empty_queue [call_extract, call_chunk];
           r1 = dequeue q2;
           r2 = dequeue (snd r1)
       in fst r1 = Some (job_of_call call_extract)
          \<and> fst r2 = Some (job_of_call call_chunk)
          \<and> p_depends_on (job_payload (job_of_call call_chunk)) = Some (e_uuid call_extract)
          \<and> h_status (hash_of (snd r2) (e_uuid call_extract)) = Some ''RUNNING''
          \<and> h_status (hash_of (snd r2) (e_uuid call_extract)) \<noteq> Some ''COMPLETED'')"
    by code_simp
  from a b show ?thesis by (rule conjI)
qed


section \<open>Chunking handler: properties\<close>

lemma new_chunks_document_id:
  "c \<in> set (new_chunks fresh i ts) \<Longrightarrow> chunk_document_id c = i"
  by (auto simp: new_chunks_def)

lemma new_chunks_index: "map chunk_index (new_chunks fresh i ts) = [0..<length ts]"
proof -
  have "map chunk_index (new_chunks fresh i ts) = map fst (enumerate 0 ts)"
    by (simp add: new_chunks_def case_prod_unfold comp_def)
  then show ?thesis by (simp add: map_fst_enumerate del: map_map)
qed

lemma new_chunks_text: "map chunk_text (new_chunks fresh i ts) = ts"
proof -
  have "map chunk_text (new_chunks fresh i ts) = map snd (enumerate 0 ts)"
    by (simp add: new_chunks_def case_prod_unfold comp_def)
  then show ?thesis by (simp add: map_snd_enumerate del: map_map)
qed

lemma chunks_commit_document: "chunks (commit_document db d) = chunks db"
  by (simp add: commit_document_def)

text \<open>
  Claim C9. For a document with non-empty extracted text the handler returns
  \<open>chunks_count = N\<close> and leaves the store with exactly the new rows for that document:
  their indices are 0..N-1 in order, their texts are the chunks produced, none of the
  rows the document had before remains, and the rows of other documents are untouched.
\<close>

theorem C9_chunks_replaced_and_indexed:
  assumes "get_document db i = Some document"
      and "extracted_text document = Some t"
      and "t \<noteq> []"
  shows "\<exists>r db'. ChunkTextHandler_execute fresh db i = (Inr r, db')
     \<and> chunks_count r = length (split_into_chunks t)
     \<and> map chunk_index (filter (\<lambda>c. chunk_document_id c = i) (chunks db'))
         = [0..<chunks_count r]
     \<and> map chunk_text (filter (\<lambda>c. chunk_document_id c = i) (chunks db'))
         = split_into_chunks t
     \<and> filter (\<lambda>c. chunk_document_id c = i) (chunks db')
         = new_chunks fresh i (split_into_chunks t)
     \<and> filter (\<lambda>c. chunk_document_id c \<noteq> i) (chunks db')
         = filter (\<lambda>c. chunk_document_id c \<noteq> i) (chunks db)"
proof -
  let ?ts = "split_into_chunks t"
  let ?kept = "filter (\<lambda>c. chunk_document_id c \<noteq> i) (chunks db)"
  let ?new = "new_chunks fresh i ?ts"
  let ?db' = "commit_document (db\<lparr>chunks := ?kept @ ?new\<rparr>) (document\<lparr>status := ANALYZING\<rparr>)"
  let ?r = "\<lparr> chunks_count = length ?ts, total_chars = sum_list (map length ?ts) \<rparr>"
  have ex: "ChunkTextHandler_execute fresh db i = (Inr ?r, ?db')"
    using assms by (simp add: ChunkTextHandler_execute_def falsy_str_def Let_def)
  have ch: "chunks ?db' = ?kept @ ?new"
    by (simp add: chunks_commit_document)
  have all_new: "filter (\<lambda>c. chunk_document_id c = i) ?new = ?new"
    by (simp add: filter_id_conv new_chunks_document_id)
  have none_new: "filter (\<lambda>c. chunk_document_id c \<noteq> i) ?new = []"
    by (simp add: filter_empty_conv new_chunks_document_id)
  have mine: "filter (\<lambda>c. chunk_document_id c = i) (chunks ?db') = ?new"
    by (simp add: ch all_new filter_empty_conv)
  have others: "filter (\<lambda>c. chunk_document_id c \<noteq> i) (chunks ?db') = ?kept"
    by (simp add: ch none_new)
  show ?thesis
    using ex mine others by (simp add: new_chunks_index new_chunks_text)
qed

theorem C9_chunks_replaced_and_indexed_witness:
  "\<exists>r db'. ChunkTextHandler_execute (\<lambda>idx. 100 + int idx) chunked_database 1 = (Inr r, db')
     \<and> chunks_count r = length (split_into_chunks ''Invoice 42'')
     \<and> map chunk_index (filter (\<lambda>c. chunk_document_id c = 1) (chunks db'))
         = [0..<chunks_count r]
     \<and> map chunk_text (filter (\<lambda>c. chunk_document_id c = 1) (chunks db'))
         = split_into_chunks ''Invoice 42''
     \<and> filter (\<lambda>c. chunk_document_id c = 1) (chunks db')
         = new_chunks (\<lambda>idx. 100 + int idx) 1 (split_into_chunks ''Invoice 42'')
     \<and> filter (\<lambda>c. chunk_document_id c \<noteq> 1) (chunks db')
         = filter (\<lambda>c. chunk_document_id c \<noteq> 1) (chunks chunked_database)"
proof -
  have h1: "get_document chunked_database 1 = Some example_document"
    by (simp add: get_document_def chunked_database_def example_database_def
          example_document_def)
  have h2: "extracted_text example_document = Some ''Invoice 42''"
    by (simp add: example_document_def)
  have h3: "''Invoice 42'' \<noteq> []" by simp
  show ?thesis
    by (rule C9_chunks_replaced_and_indexed[OF h1 h2 h3])
qed

text \<open>On the example the stale row of document 1 is gone and one chunk is stored.\<close>

lemma chunk_example:
  "chunks (snd (ChunkTextHandler_execute (\<lambda>idx. 100 + int idx) chunked_database 1))
     = [other_chunk,
        \<lparr> chunk_id = 100, chunk_document_id = 1, chunk_index = 0,
          chunk_text = ''Invoice 42'', chunk_tokens = 2, qdrant_point_id = None \<rparr>]"
  by code_simp


section \<open>Storage service: properties\<close>

lemma safe_join_cases:
  "safe_join S fs relpath = Inl PathTraversalError
   \<or> (\<exists>p. safe_join S fs relpath = Inr p \<and> take (length (storage_root S)) p = storage_root S)"
  by (auto simp: safe_join_def relative_to_def Let_def)

lemma safe_join_rejects:
  assumes "take (length (storage_root S)) (realpath S fs (raw_join (storage_root S) relpath))
             \<noteq> storage_root S"
  shows "safe_join S fs relpath = Inl PathTraversalError"
  using assms by (simp add: safe_join_def relative_to_def Let_def)

text \<open>
  Claim C1. When the canonical form of the root joined with \<open>relpath\<close> does not lie
  below the root, \<open>safe_join\<close> raises \<open>PathTraversalError\<close>, and each operation given
  that path (for move and copy: as source or as destination, whatever the other path
  is) raises the same error and returns the file system as it received it: no call that
  changes the file system is made.
\<close>

theorem C1_rejected_path_no_mutation:
  assumes "take (length (storage_root S)) (realpath S fs (raw_join (storage_root S) relpath))
             \<noteq> storage_root S"
  shows "safe_join S fs relpath = Inl PathTraversalError
       \<and> list_directory S fs relpath = (Inl PathTraversalError, fs)
       \<and> stat S fs relpath = (Inl PathTraversalError, fs)
       \<and> read_file S fs relpath = (Inl PathTraversalError, fs)
       \<and> write_file S fs relpath content overwrite = (Inl PathTraversalError, fs)
       \<and> move_file S fs relpath other overwrite = (Inl PathTraversalError, fs)
       \<and> move_file S fs other relpath overwrite = (Inl PathTraversalError, fs)
       \<and> copy_file S fs relpath other overwrite = (Inl PathTraversalError, fs)
       \<and> copy_file S fs other relpath overwrite = (Inl PathTraversalError, fs)
       \<and> delete_file S fs relpath = (Inl PathTraversalError, fs)
       \<and> compute_sha256 S fs relpath = (Inl PathTraversalError, fs)
       \<and> ensure_directory S fs relpath = (Inl PathTraversalError, fs)"
proof -
  have r: "safe_join S fs relpath = Inl PathTraversalError"
    using assms by (rule safe_join_rejects)
  have mv: "move_file S fs other relpath overwrite = (Inl PathTraversalError, fs)"
    using safe_join_cases[of S fs other] by (auto simp: move_file_def r)
  have cp: "copy_file S fs other relpath overwrite = (Inl PathTraversalError, fs)"
    using safe_join_cases[of S fs other] by (auto simp: copy_file_def r)
  have ro: "list_directory S fs relpath = (Inl PathTraversalError, fs)"
    "stat S fs relpath = (Inl PathTraversalError, fs)"
    "read_file S fs relpath = (Inl PathTraversalError, fs)"
    "compute_sha256 S fs relpath = (Inl PathTraversalError, fs)"
    by (simp_all add: r list_directory_def stat_def read_file_def compute_sha256_def)
  have rw: "write_file S fs relpath content overwrite = (Inl PathTraversalError, fs)"
    "move_file S fs relpath other overwrite = (Inl PathTraversalError, fs)"
    "copy_file S fs relpath other overwrite = (Inl PathTraversalError, fs)"
    "delete_file S fs relpath = (Inl PathTraversalError, fs)"
    "ensure_directory S fs relpath = (Inl PathTraversalError, fs)"
    by (simp_all add: r write_file_def move_file_def copy_file_def delete_file_def
          ensure_directory_def)
  from r ro rw mv cp show ?thesis by (intro conjI)
qed

theorem C1_rejected_path_no_mutation_witness:
  "safe_join (mem_storage example_root) example_fs ''00_inbox/../../../etc/passwd''
     = Inl PathTraversalError
   \<and> list_directory (mem_storage example_root) example_fs ''00_inbox/../../../etc/passwd''
     = (Inl PathTraversalError, example_fs)
   \<and> stat (mem_storage example_root) example_fs ''00_inbox/../../../etc/passwd''
     = (Inl PathTraversalError, example_fs)
   \<and> read_file (mem_storage example_root) example_fs ''00_inbox/../../../etc/passwd''
     = (Inl PathTraversalError, example_fs)
   \<and> write_file (mem_storage example_root) example_fs ''00_inbox/../../../etc/passwd'' [120] True
     = (Inl PathTraversalError, example_fs)
   \<and> move_file (mem_storage example_root) example_fs ''00_inbox/../../../etc/passwd''
       ''00_inbox/scan.pdf'' True
     = (Inl PathTraversalError, example_fs)
   \<and> move_file (mem_storage example_root) example_fs ''00_inbox/scan.pdf''
       ''00_inbox/../../../etc/passwd'' True
     = (Inl PathTraversalError, example_fs)
   \<and> copy_file (mem_storage example_root) example_fs ''00_inbox/../../../etc/passwd''
       ''00_inbox/scan.pdf'' True
     = (Inl PathTraversalError, example_fs)
   \<and> copy_file (mem_storage example_root) example_fs ''00_inbox/scan.pdf''
       ''00_inbox/../../../etc/passwd'' True
     = (Inl PathTraversalError, example_fs)
   \<and> delete_file (mem_storage example_root) example_fs ''00_inbox/../../../etc/passwd''
     = (Inl PathTraversalError, example_fs)
   \<and> compute_sha256 (mem_storage example_root) example_fs ''00_inbox/../../../etc/passwd''
     = (Inl PathTraversalError, example_fs)
   \<and> ensure_directory (mem_storage example_root) example_fs ''00_inbox/../../../etc/passwd''
     = (Inl PathTraversalError, example_fs)"
proof -
  have h: "take (length (storage_root (mem_storage example_root)))
             (realpath (mem_storage example_root) example_fs
                (raw_join (storage_root (mem_storage example_root))
                   ''00_inbox/../../../etc/passwd''))
           \<noteq> storage_root (mem_storage example_root)"
    by code_simp
  show ?thesis
    by (rule C1_rejected_path_no_mutation[OF h])
qed

text \<open>
  The three ways out of the root: \<open>..\<close> components, an absolute path, and a symbolic
  link. A path that stays inside is accepted, and without the check the write of the
  first path would have replaced \<open>/etc/passwd\<close>.
\<close>

lemma safe_join_examples:
  "safe_join (mem_storage example_root) example_fs ''00_inbox/../../../etc/passwd''
     = Inl PathTraversalError"
  "safe_join (mem_storage example_root) example_fs ''/etc/passwd'' = Inl PathTraversalError"
  "safe_join symlink_storage example_fs ''00_inbox/out/passwd'' = Inl PathTraversalError"
  "safe_join (mem_storage example_root) example_fs ''00_inbox/../00_inbox/scan.pdf''
     = Inr [''srv'', ''storage'', ''00_inbox'', ''scan.pdf'']"
  "realpath (mem_storage example_root) example_fs
     (raw_join example_root ''00_inbox/../../../etc/passwd'') = [''etc'', ''passwd'']"
  by code_simp+


section \<open>Extraction handler: properties\<close>

lemma extract_from_text_readable:
  assumes "read_bytes (storage H) fs file_path = Inr content"
  shows "extract_from_text H fs file_path =
           Inr (translate_newlines (case utf8_decode H content of
                                      Some t \<Rightarrow> t
                                    | None \<Rightarrow> latin1_decode content), 1)"
  using assms by (simp add: extract_from_text_def split: option.splits)

lemma extract_from_text_fails:
  assumes "extract_from_text H fs file_path = Inl e"
  shows "read_bytes (storage H) fs file_path = Inl e"
  using assms by (auto simp: extract_from_text_def split: sum.splits option.splits)

lemma extract_from_pdf_error:
  "extract_from_pdf H fs file_path = Inl e \<Longrightarrow> e = PdfExtractionFailed"
  by (auto simp: extract_from_pdf_def split: option.splits)

lemma unsupported_only_by_read_error:
  assumes "fst (ExtractTextHandler_execute H fs db pl) = Inl UnsupportedFileFormat"
  shows "\<exists>relpath file_path e. p_file_path pl = Some relpath
           \<and> safe_join (storage H) fs relpath = Inr file_path
           \<and> read_bytes (storage H) fs file_path = Inl e"
proof (cases "p_file_path pl")
  case None
  with assms show ?thesis by (simp add: ExtractTextHandler_execute_def)
next
  case (Some relpath)
  note rel = Some
  show ?thesis
  proof (cases "safe_join (storage H) fs relpath")
    case (Inl e)
    with assms rel safe_join_cases[of "storage H" fs relpath] show ?thesis
      by (auto simp: ExtractTextHandler_execute_def)
  next
    case (Inr file_path)
    note sj = Inr
    show ?thesis
    proof (cases "case p_mime_type pl of None \<Rightarrow> Some [] | Some m \<Rightarrow> m")
      case None
      with assms rel sj show ?thesis by (simp add: ExtractTextHandler_execute_def)
    next
      case (Some mime)
      note mt = Some
      consider (pdf) "str_in ''pdf'' (lower mime) \<or> lower (suffix file_path) = ''.pdf''"
        | (plain) "\<not> (str_in ''pdf'' (lower mime) \<or> lower (suffix file_path) = ''.pdf'')"
                "str_in ''text'' (lower mime) \<or> suffix file_path \<in> set [''.txt'', ''.md'', ''.log'']"
        | (other) "\<not> (str_in ''pdf'' (lower mime) \<or> lower (suffix file_path) = ''.pdf'')"
                "\<not> (str_in ''text'' (lower mime) \<or> suffix file_path \<in> set [''.txt'', ''.md'', ''.log''])"
        by blast
      then show ?thesis
      proof cases
        case pdf
        with assms rel sj mt extract_from_pdf_error[of H fs file_path] show ?thesis
          by (auto simp: ExtractTextHandler_execute_def split: sum.splits option.splits)
      next
        case plain
        with assms rel sj mt extract_from_text_fails[of H fs file_path] show ?thesis
          by (auto simp: ExtractTextHandler_execute_def split: sum.splits option.splits)
      next
        case other
        with assms rel sj mt have "\<exists>e. extract_from_text H fs file_path = Inl e"
          by (auto simp: ExtractTextHandler_execute_def split: sum.splits option.splits)
        then obtain e where "extract_from_text H fs file_path = Inl e" ..
        then have "read_bytes (storage H) fs file_path = Inl e"
          by (rule extract_from_text_fails)
        with rel sj show ?thesis by blast
      qed
    qed
  qed
qed

text \<open>
  Claim C10. Whatever bytes a readable file holds, \<open>extract_from_text\<close> returns text:
  the UTF-8 decoding when there is one, the Latin-1 decoding of the same bytes
  otherwise. So when the handler fails with "Unsupported file format", the file could
  not be opened and read at all.
\<close>

theorem C10_text_extraction_total:
  "(\<forall>content. read_bytes (storage H) fs file_path = Inr content \<longrightarrow>
      extract_from_text H fs file_path =
        Inr (translate_newlines (case utf8_decode H content of
                                   Some t \<Rightarrow> t
                                 | None \<Rightarrow> latin1_decode content), 1))
   \<and> (fst (ExtractTextHandler_execute H fs db pl) = Inl UnsupportedFileFormat \<longrightarrow>
        (\<exists>relpath p e. p_file_path pl = Some relpath
           \<and> safe_join (storage H) fs relpath = Inr p
           \<and> read_bytes (storage H) fs p = Inl e))"
  using extract_from_text_readable[of H fs file_path]
    unsupported_only_by_read_error[of H fs db pl]
  by blast

theorem C10_text_extraction_total_witness:
  "read_bytes (storage example_handler) binary_fs
      [''srv'', ''storage'', ''01_ingested'', ''9f2c_notes.bin''] = Inr [99, 97, 102, 233, 13, 10]
   \<and> extract_from_text example_handler binary_fs
        [''srv'', ''storage'', ''01_ingested'', ''9f2c_notes.bin'']
      = Inr ([CHR ''c'', CHR ''a'', CHR ''f'', CHR 0xE9, CHR 0x0A], 1)
   \<and> fst (ExtractTextHandler_execute example_handler binary_fs example_database missing_payload)
      = Inl UnsupportedFileFormat
   \<and> (\<exists>relpath p e. p_file_path missing_payload = Some relpath
         \<and> safe_join (storage example_handler) binary_fs relpath = Inr p
         \<and> read_bytes (storage example_handler) binary_fs p = Inl e)"
proof -
  have h1: "read_bytes (storage example_handler) binary_fs
      [''srv'', ''storage'', ''01_ingested'', ''9f2c_notes.bin''] = Inr [99, 97, 102, 233, 13, 10]"
    by code_simp
  have h2: "fst (ExtractTextHandler_execute example_handler binary_fs example_database
              missing_payload) = Inl UnsupportedFileFormat"
    by code_simp
  have dec: "translate_newlines (case utf8_decode example_handler [99, 97, 102, 233, 13, 10] of
                                   Some t \<Rightarrow> t
                                 | None \<Rightarrow> latin1_decode [99, 97, 102, 233, 13, 10])
             = [CHR ''c'', CHR ''a'', CHR ''f'', CHR 0xE9, CHR 0x0A]"
    by code_simp
  from C10_text_extraction_total[of example_handler binary_fs
         "[''srv'', ''storage'', ''01_ingested'', ''9f2c_notes.bin'']"
         example_database missing_payload]
  show ?thesis using h1 h2 dec by simp
qed

text \<open>
  The file of unknown type with bytes that are not UTF-8 is extracted, not refused;
  a payload whose \<open>mime_type\<close> entry is \<open>None\<close> fails earlier, at \<open>mime_type.lower()\<close>.
\<close>

lemma extract_examples:
  "fst (ExtractTextHandler_execute example_handler binary_fs example_database binary_payload)
     = Inr \<lparr> extracted_text_length = 5, res_page_count = 1, char_count = 5 \<rparr>"
  "fst (ExtractTextHandler_execute example_handler binary_fs example_database
          (binary_payload\<lparr>p_mime_type := Some None\<rparr>)) = Inl AttributeError"
  by code_simp+


section \<open>Embedding handler: properties\<close>










section \<open>Ingest: properties\<close>

lemma to_http_cases: "to_http e = HTTPException 404 \<or> to_http e = HTTPException 500"
  by (cases e) (simp_all add: to_http_def)

lemma add_document_duplicate:
  assumes "find (\<lambda>d. file_sha256 d = h) (documents db) = Some existing"
      and "file_sha256 d = h"
  shows "add_document db d = Inl IntegrityError"
proof -
  from assms(1) have "existing \<in> set (documents db)" and "file_sha256 existing = h"
    by (auto simp: find_Some_iff)
  then have "h \<in> set (map file_sha256 (documents db))" by force
  with assms(2) show ?thesis by (simp add: add_document_def)
qed

text \<open>With a row of the same hash in the table, the path past the duplicate check fails.\<close>

lemma ingest_new_duplicate:
  assumes "find (\<lambda>d. file_sha256 d = h) (documents db) = Some existing"
  shows "\<exists>code fs'. ingest_new S env fs db q rq h = (Inl (HTTPException code), fs', db, q)
           \<and> (code = 404 \<or> code = 500)"
proof (cases "stat S fs (inbox_path rq)")
  case (Pair r1 fs1)
  show ?thesis
  proof (cases r1)
    case (Inl e)
    with Pair to_http_cases[of e] show ?thesis
      by (auto simp: ingest_new_def)
  next
    case (Inr file_stat)
    note st = Pair Inr
    show ?thesis
    proof (cases "copy_file S fs1 (inbox_path rq)
                    (''01_ingested/'' @ h @ ''_'' @ md_name file_stat) False")
      case (Pair r2 fs2)
      show ?thesis
      proof (cases r2)
        case (Inl e)
        with st Pair to_http_cases[of e] show ?thesis
          by (auto simp: ingest_new_def Let_def)
      next
        case (Inr copied)
        with st Pair show ?thesis
          by (simp add: ingest_new_def Let_def add_document_duplicate[OF assms] to_http_def)
      qed
    qed
  qed
qed

text \<open>
  Claim C4, as the code has it. For a request for a path under \<open>00_inbox/\<close> whose hash
  is computed and equals the \<open>file_sha256\<close> of a row \<open>existing\<close>: no row is added to the
  table. Without \<open>skip_duplicate_check\<close> the response reports the existing document's
  id and nothing is changed. With \<open>skip_duplicate_check\<close> the request does not report
  it: it ends with the response 404 or 500.
\<close>

theorem C4_same_hash_adds_no_row:
  assumes "take 9 (inbox_path rq) = ''00_inbox/''"
      and "compute_sha256 S fs (inbox_path rq) = (Inr h, fs0)"
      and "find (\<lambda>d. file_sha256 d = h) (documents db) = Some existing"
  shows "(\<not> skip_duplicate_check rq \<longrightarrow>
            ingest_document S env fs db q rq
              = (Inr \<lparr> ir_document_id = Some (doc_id existing), ir_status = ''DUPLICATE'',
                        ir_is_duplicate = True, ir_duplicate_of = Some (doc_id existing),
                        ir_sha256 = h \<rparr>, fs0, db, q))
       \<and> (skip_duplicate_check rq \<longrightarrow>
            (\<exists>code fs'. ingest_document S env fs db q rq = (Inl (HTTPException code), fs', db, q)
                \<and> (code = 404 \<or> code = 500)))
       \<and> documents (fst (snd (snd (ingest_document S env fs db q rq)))) = documents db"
proof -
  have a: "\<not> skip_duplicate_check rq \<Longrightarrow>
            ingest_document S env fs db q rq
              = (Inr \<lparr> ir_document_id = Some (doc_id existing), ir_status = ''DUPLICATE'',
                        ir_is_duplicate = True, ir_duplicate_of = Some (doc_id existing),
                        ir_sha256 = h \<rparr>, fs0, db, q)"
    using assms by (simp add: ingest_document_def)
  have b: "\<exists>code fs'. ingest_document S env fs db q rq = (Inl (HTTPException code), fs', db, q)
                \<and> (code = 404 \<or> code = 500)" if "skip_duplicate_check rq"
  proof -
    have "ingest_document S env fs db q rq = ingest_new S env fs0 db q rq h"
      using assms that by (simp add: ingest_document_def)
    with ingest_new_duplicate[OF assms(3), of S env fs0 q rq] show ?thesis by simp
  qed
  have c: "documents (fst (snd (snd (ingest_document S env fs db q rq)))) = documents db"
  proof (cases "skip_duplicate_check rq")
    case True
    from b[OF True] show ?thesis by auto
  next
    case False
    from a[OF False] show ?thesis by simp
  qed
  from a b c show ?thesis by blast
qed

theorem C4_same_hash_adds_no_row_witness:
  "ingest_document (mem_storage example_root) example_ingest_env reingest_fs example_database
       empty_queue reingest_request
     = (Inr \<lparr> ir_document_id = Some (doc_id example_document), ir_status = ''DUPLICATE'',
               ir_is_duplicate = True, ir_duplicate_of = Some (doc_id example_document),
               ir_sha256 = ''9f2c'' \<rparr>, reingest_fs, example_database, empty_queue)
   \<and> (\<exists>code fs'. ingest_document (mem_storage example_root) example_ingest_env reingest_fs
                     example_database empty_queue
                     (reingest_request\<lparr>skip_duplicate_check := True\<rparr>)
                   = (Inl (HTTPException code), fs', example_database, empty_queue)
         \<and> (code = 404 \<or> code = 500))"
proof -
  have h1: "take 9 (inbox_path reingest_request) = ''00_inbox/''"
    by (simp add: reingest_request_def)
  have h2: "compute_sha256 (mem_storage example_root) reingest_fs (inbox_path reingest_request)
              = (Inr ''9f2c'', reingest_fs)"
    by code_simp
  have h3: "find (\<lambda>d. file_sha256 d = ''9f2c'') (documents example_database)
              = Some example_document"
    by (simp add: example_database_def example_document_def)
  have n: "\<not> skip_duplicate_check reingest_request"
    by (simp add: reingest_request_def)
  have h1': "take 9 (inbox_path (reingest_request\<lparr>skip_duplicate_check := True\<rparr>)) = ''00_inbox/''"
    by (simp add: reingest_request_def)
  have h2': "compute_sha256 (mem_storage example_root) reingest_fs
               (inbox_path (reingest_request\<lparr>skip_duplicate_check := True\<rparr>))
              = (Inr ''9f2c'', reingest_fs)"
    using h2 by simp
  have y: "skip_duplicate_check (reingest_request\<lparr>skip_duplicate_check := True\<rparr>)"
    by simp
  from C4_same_hash_adds_no_row[OF h1 h2 h3, of example_ingest_env empty_queue] n
  have 1: "ingest_document (mem_storage example_root) example_ingest_env reingest_fs
       example_database empty_queue reingest_request
     = (Inr \<lparr> ir_document_id = Some (doc_id example_document), ir_status = ''DUPLICATE'',
               ir_is_duplicate = True, ir_duplicate_of = Some (doc_id example_document),
               ir_sha256 = ''9f2c'' \<rparr>, reingest_fs, example_database, empty_queue)"
    by blast
  from C4_same_hash_adds_no_row[OF h1' h2' h3, of example_ingest_env empty_queue] y
  have 2: "\<exists>code fs'. ingest_document (mem_storage example_root) example_ingest_env reingest_fs
                     example_database empty_queue
                     (reingest_request\<lparr>skip_duplicate_check := True\<rparr>)
                   = (Inl (HTTPException code), fs', example_database, empty_queue)
         \<and> (code = 404 \<or> code = 500)"
    by blast
  from 1 2 show ?thesis by (rule conjI)
qed

text \<open>
  Claim C4 as stated fails: the file \<open>00_inbox/copy.pdf\<close> has the hash of document 1,
  and the request with \<open>skip_duplicate_check\<close> set is answered with the response 500
  (the unique constraint refuses the new row), not with the id of document 1.
\<close>

theorem C4_skip_duplicate_check_reports_error:
  "fst (compute_sha256 (mem_storage example_root) reingest_fs ''00_inbox/copy.pdf'')
     = Inr (file_sha256 example_document)
   \<and> example_document \<in> set (documents example_database)
   \<and> fst (ingest_document (mem_storage example_root) example_ingest_env reingest_fs
            example_database empty_queue
            \<lparr> inbox_path = ''00_inbox/copy.pdf'', skip_duplicate_check = True \<rparr>)
     = Inl (HTTPException 500)"
  by code_simp


end
